theory Spec2Isabelle
  imports Complex_Main "HOL-Library.Option_ord"
begin

section \<open>Data model (shared/schema.ts)\<close>

text \<open>
  The tables of the schema become records and the database a record of lists of rows, in
  table order. Identifiers are the \<open>varchar\<close> keys of the schema, hence strings. A
  \<open>decimal\<close> column holds a decimal number, modelled by the rational it denotes; it
  reaches the server as a string and is read with \<open>parseFloat\<close>. A \<open>date\<close> column is
  modelled by the integer \<open>new Date(..).getTime()\<close> yields for it, in milliseconds.
  Only the columns the modelled operations read are kept.
  Several tables have columns \<open>id\<close> and \<open>organizationId\<close>; a record field name is
  global, so these two carry the table as a prefix, every other column keeps the name of
  the schema.
\<close>

datatype role = Admin | User | Broker

datatype viewMode = Total | Weighted

record user =
  user_id :: string
  user_organizationId :: string
  role :: role
  assignedCompanyId :: "string option"
  dashboardViewMode :: viewMode

record company =
  company_id :: string
  company_organizationId :: string

record companyRelation =
  relation_id :: string
  parentCompanyId :: string
  childCompanyId :: string
  ownershipPercentage :: rat

record property =
  property_id :: string
  property_organizationId :: string
  ownerCompanyId :: "string option"
  acquisitionPrice :: rat
  acquisitionDate :: "int option"

record lease =
  lease_id :: string
  lease_organizationId :: string
  propertyId :: string
  totalArea :: int

record leaseTenant =
  leaseTenant_id :: string
  leaseId :: string
  periodStart :: int
  periodEnd :: "int option"

record db =
  users :: "user list"
  companies :: "company list"
  companyRelations :: "companyRelation list"
  properties :: "property list"
  leases :: "lease list"
  leaseTenants :: "leaseTenant list"

text \<open>JavaScript truthiness of a string that may be \<open>null\<close> or \<open>undefined\<close>: the empty
  string is falsy as well.\<close>

fun truthy :: "string option \<Rightarrow> bool" where
  "truthy None = False"
| "truthy (Some s) = (s \<noteq> [])"

section \<open>JavaScript numbers\<close>

text \<open>
  A JavaScript number is an IEEE 754 binary64 value. A finite one is a rational
  \<open>m * 2^q\<close> with \<open>|m| \<le> 2^53\<close> and \<open>q \<ge> -1074\<close>, and it is modelled by that rational.
  An arithmetic operation returns the double nearest to the exact result, a tie going to
  the even significand; \<open>double\<close> is this rounding. For a positive \<open>x\<close> with
  \<open>2^e \<le> x < 2^(e+1)\<close> the doubles around \<open>x\<close> are the multiples of \<open>2^q\<close>, where \<open>q\<close>
  is \<open>e - 52\<close>, and \<open>-1074\<close> in the subnormal range. \<open>Infinity\<close> and \<open>NaN\<close> have no
  rational: a result of \<open>2^1024\<close> or more is rounded like any other, where JavaScript
  yields \<open>Infinity\<close>, and no operation modelled here divides by zero or reads a string
  that is not a number.
\<close>

text \<open>\<open>log2floor n\<close> is the position of the leading binary digit of an integer
  \<open>n \<ge> 1\<close>: \<open>2 ^ log2floor n \<le> n < 2 ^ (log2floor n + 1)\<close>.\<close>

function log2floor :: "int \<Rightarrow> int" where
  "log2floor n = (if n \<le> 1 then 0 else 1 + log2floor (n div 2))"
  by pat_completeness auto

termination log2floor
  by (relation "measure nat") auto

declare log2floor.simps [simp del]

text \<open>\<open>binaryExponent x\<close> is the \<open>e\<close> with \<open>2^e \<le> x < 2^(e+1)\<close>, for a positive rational
  \<open>x\<close>.\<close>

definition binaryExponent :: "rat \<Rightarrow> int" where
  "binaryExponent x =
     (if x \<ge> 1 then log2floor \<lfloor>x\<rfloor>
      else - (1 + log2floor (\<lceil>1 / x\<rceil> - 1)))"

text \<open>The nearest integer, a half going to the even one.\<close>

definition roundHalfEven :: "rat \<Rightarrow> int" where
  "roundHalfEven y =
     (let f = \<lfloor>y\<rfloor>; r = y - of_int f
      in if r < 1 / 2 then f
         else if r > 1 / 2 then f + 1
         else if even f then f else f + 1)"

definition double :: "rat \<Rightarrow> rat" where
  "double x =
     (if x = 0 then 0
      else
        (let q = max (binaryExponent \<bar>x\<bar> - 52) (- 1074)
         in sgn x * of_int (roundHalfEven (\<bar>x\<bar> / power_int 2 q)) * power_int 2 q))"

text \<open>\<open>parseFloat\<close> of the string of a decimal column, and the operators \<open>+\<close>, \<open>*\<close> and
  \<open>/\<close> on numbers.\<close>

definition parseFloat :: "rat \<Rightarrow> rat" where
  "parseFloat decimal = double decimal"

definition dadd :: "rat \<Rightarrow> rat \<Rightarrow> rat" where
  "dadd x y = double (x + y)"

definition dmul :: "rat \<Rightarrow> rat \<Rightarrow> rat" where
  "dmul x y = double (x * y)"

definition ddiv :: "rat \<Rightarrow> rat \<Rightarrow> rat" where
  "ddiv x y = double (x / y)"

section \<open>Storage (DatabaseStorage)\<close>

text \<open>\<open>const [user] = await db.select().from(users).where(eq(users.id, id))\<close>: the first
  matching row, if any.\<close>

definition getUser :: "db \<Rightarrow> string \<Rightarrow> user option" where
  "getUser d uid = find (\<lambda>u. user_id u = uid) (users d)"

definition getCompany :: "db \<Rightarrow> string \<Rightarrow> string \<Rightarrow> company option" where
  "getCompany d cid org =
     find (\<lambda>c. company_id c = cid \<and> company_organizationId c = org) (companies d)"

definition getParentRelations :: "db \<Rightarrow> string \<Rightarrow> companyRelation list" where
  "getParentRelations d cid = filter (\<lambda>r. childCompanyId r = cid) (companyRelations d)"

definition getChildRelations :: "db \<Rightarrow> string \<Rightarrow> companyRelation list" where
  "getChildRelations d cid = filter (\<lambda>r. parentCompanyId r = cid) (companyRelations d)"

subsection \<open>Algorithm A: getAccessibleCompanyIds\<close>

text \<open>
  The two \<open>Set\<close> objects the closure \<open>traverseOwnership\<close> mutates are threaded
  through the recursion as a record. A JavaScript \<open>Set\<close> keeps insertion order and
  \<open>add\<close> ignores a member, so each is a list to which \<open>setAdd\<close> appends.
\<close>

record traversal =
  visitedCompanies :: "string list"
  accessibleCompanies :: "string list"

definition setAdd :: "string \<Rightarrow> string list \<Rightarrow> string list" where
  "setAdd x xs = (if x \<in> set xs then xs else xs @ [x])"

text \<open>\<open>traverseChildren\<close> is the \<open>for (const relation of childRelations)\<close> loop of
  \<open>traverseOwnership\<close>, run over the relations that are left.\<close>

function traverseOwnership :: "db \<Rightarrow> string \<Rightarrow> rat \<Rightarrow> traversal \<Rightarrow> traversal"
  and traverseChildren :: "db \<Rightarrow> rat \<Rightarrow> companyRelation list \<Rightarrow> traversal \<Rightarrow> traversal"
where
  "traverseOwnership d currentCompanyId currentOwnership t =
     (if currentCompanyId \<in> set (visitedCompanies t) then t
      else
        traverseChildren d currentOwnership (getChildRelations d currentCompanyId)
          (t\<lparr>visitedCompanies := setAdd currentCompanyId (visitedCompanies t),
             accessibleCompanies :=
               (if currentOwnership > 0 then setAdd currentCompanyId (accessibleCompanies t)
                else accessibleCompanies t)\<rparr>))"
| "traverseChildren d currentOwnership [] t = t"
| "traverseChildren d currentOwnership (relation # rest) t =
     traverseChildren d currentOwnership rest
       (traverseOwnership d (childCompanyId relation)
          (ddiv (dmul currentOwnership (parseFloat (ownershipPercentage relation))) 100) t)"
  by pat_completeness auto

text \<open>
  Termination. The inner call of the loop is nested, so the proof needs a fact about the
  result of \<open>traverseOwnership\<close> before the function is known to be total: the visited
  set only grows. The measure is the number of companies that can still be entered (the
  children named by some relation, and the companies the call itself is about to enter)
  that are not yet visited; the length of the remaining loop breaks ties.
\<close>

lemma visited_mono_dom:
  "traverseOwnership_traverseChildren_dom (Inl (d, c, w, t)) \<Longrightarrow>
     set (visitedCompanies t) \<subseteq> set (visitedCompanies (traverseOwnership d c w t))"
  "traverseOwnership_traverseChildren_dom (Inr (d, w, rs, t)) \<Longrightarrow>
     set (visitedCompanies t) \<subseteq> set (visitedCompanies (traverseChildren d w rs t))"
proof (induction d c w t and d w rs t rule: traverseOwnership_traverseChildren.pinduct)
  case (1 d c w t)
  then show ?case
    by (auto simp: traverseOwnership.psimps setAdd_def)
next
  case (2 d w t)
  then show ?case by (simp add: traverseChildren.psimps)
next
  case (3 d w r rs t)
  then show ?case by (auto simp: traverseChildren.psimps)
qed

definition unvisited :: "db \<Rightarrow> string set \<Rightarrow> string list \<Rightarrow> nat" where
  "unvisited d pending vs =
     card ((childCompanyId ` set (companyRelations d) \<union> pending) - set vs)"

lemma unvisited_mono:
  "finite A \<Longrightarrow> B \<subseteq> childCompanyId ` set (companyRelations d) \<union> A \<Longrightarrow>
     set vs \<subseteq> set ws \<Longrightarrow> unvisited d B ws \<le> unvisited d A vs"
  unfolding unvisited_def by (intro card_mono) auto

lemma unvisited_enter:
  assumes "c \<notin> set vs"
  shows "unvisited d (childCompanyId ` set (getChildRelations d c)) (setAdd c vs)
           < unvisited d {c} vs"
proof -
  let ?N = "childCompanyId ` set (companyRelations d)"
  have "(?N \<union> childCompanyId ` set (getChildRelations d c)) - set (setAdd c vs)
          \<subset> (?N \<union> {c}) - set vs"
    using assms by (auto simp: getChildRelations_def setAdd_def)
  then show ?thesis
    unfolding unvisited_def by (intro psubset_card_mono) auto
qed

lemma traverse_total: "All traverseOwnership_traverseChildren_dom"
proof (relation "measures [
     (\<lambda>x. case x of
        Inl (d, c, w, t) \<Rightarrow> unvisited d {c} (visitedCompanies t)
      | Inr (d, w, rs, t) \<Rightarrow> unvisited d (childCompanyId ` set rs) (visitedCompanies t)),
     (\<lambda>x. case x of Inl _ \<Rightarrow> 0 | Inr (d, w, rs, t) \<Rightarrow> Suc (length rs))]", goal_cases)
  case 1
  then show ?case by simp
next
  case 2
  then show ?case by (simp add: unvisited_enter)
next
  case (3 d w r rs t)
  have "unvisited d {childCompanyId r} (visitedCompanies t)
          \<le> unvisited d (childCompanyId ` set (r # rs)) (visitedCompanies t)"
    by (rule unvisited_mono) auto
  then show ?case by auto
next
  case (4 d w r rs t)
  have "unvisited d (childCompanyId ` set rs)
           (visitedCompanies
              (traverseOwnership d (childCompanyId r)
                 (ddiv (dmul w (parseFloat (ownershipPercentage r))) 100) t))
          \<le> unvisited d (childCompanyId ` set (r # rs)) (visitedCompanies t)"
    using visited_mono_dom(1)[OF 4] by (intro unvisited_mono) auto
  then show ?case by auto
qed

termination traverseOwnership
  by (rule traverse_total)

text \<open>\<open>await traverseOwnership(companyId)\<close> starts from two empty sets with the default
  \<open>currentOwnership = 100\<close>; \<open>Array.from(accessibleCompanies)\<close> is the list itself.\<close>

definition getAccessibleCompanyIds :: "db \<Rightarrow> string \<Rightarrow> string list" where
  "getAccessibleCompanyIds d companyId =
     accessibleCompanies
       (traverseOwnership d companyId 100 \<lparr>visitedCompanies = [], accessibleCompanies = []\<rparr>)"

subsection \<open>Listings: getProperties and getLeases\<close>

text \<open>SQL \<open>owner_company_id IN (...)\<close>: a \<open>NULL\<close> column matches nothing.\<close>

fun inArray :: "string option \<Rightarrow> string list \<Rightarrow> bool" where
  "inArray None xs = False"
| "inArray (Some x) xs = (x \<in> set xs)"


text \<open>\<open>leases INNER JOIN properties ON leases.propertyId = properties.id\<close>: a row is a
  pair of a lease and the property it joins.\<close>

definition leasesJoinProperties :: "db \<Rightarrow> (lease \<times> property) list" where
  "leasesJoinProperties d =
     concat (map (\<lambda>l. map (\<lambda>p. (l, p))
                         (filter (\<lambda>p. propertyId l = property_id p) (properties d)))
                 (leases d))"

definition getLeases :: "db \<Rightarrow> string \<Rightarrow> string option \<Rightarrow> (lease \<times> property) list" where
  "getLeases d organizationId userId =
     (case userId of
        None \<Rightarrow>
          filter (\<lambda>(l, p). lease_organizationId l = organizationId) (leasesJoinProperties d)
      | Some uid \<Rightarrow>
         if uid = [] then
           filter (\<lambda>(l, p). lease_organizationId l = organizationId) (leasesJoinProperties d)
         else
           (case getUser d uid of
              None \<Rightarrow> []
            | Some user \<Rightarrow>
               (case assignedCompanyId user of
                  None \<Rightarrow> []
                | Some assigned \<Rightarrow>
                   if assigned = [] then []
                   else
                     (let accessibleCompanyIds = getAccessibleCompanyIds d assigned
                      in if length accessibleCompanyIds = 0 then []
                         else
                           filter (\<lambda>(l, p). lease_organizationId l = organizationId \<and>
                                             inArray (ownerCompanyId p) accessibleCompanyIds)
                             (leasesJoinProperties d)))))"

subsection \<open>Algorithm B: calculateOwnershipFromRoot\<close>

text \<open>
  \<open>allRelations\<close> is \<open>company_relations INNER JOIN companies ON parentCompanyId =
  companies.id WHERE companies.organizationId = organizationId\<close>; a row holds the
  relation under the key \<open>company_relations\<close> and the parent company beside it.
\<close>

type_synonym relationRow = "companyRelation \<times> company"

definition company_relations :: "relationRow \<Rightarrow> companyRelation" where
  "company_relations row = fst row"

definition allRelationsOf :: "db \<Rightarrow> string \<Rightarrow> relationRow list" where
  "allRelationsOf d organizationId =
     filter (\<lambda>(r, c). company_organizationId c = organizationId)
       (concat (map (\<lambda>r. map (\<lambda>c. (r, c))
                            (filter (\<lambda>c. parentCompanyId r = company_id c) (companies d)))
                    (companyRelations d)))"

text \<open>
  The function is synchronous and recursive with no visited set. \<open>depth\<close> is the number
  of nested calls the JavaScript stack still has room for; a nested call attempted at
  depth \<open>0\<close> throws \<open>RangeError\<close> (maximum call stack size exceeded), which is
  \<open>None\<close>. \<open>directLoop\<close> is the \<open>for\<close> loop over \<open>directRelations\<close> with its
  accumulator \<open>totalOwnership\<close>; \<open>directPercentage\<close> is written out where it is used.
\<close>

fun calculateOwnershipFromRoot :: "nat \<Rightarrow> string \<Rightarrow> string \<Rightarrow> relationRow list \<Rightarrow> rat option"
  and directLoop :: "nat \<Rightarrow> string \<Rightarrow> relationRow list \<Rightarrow> relationRow list \<Rightarrow> rat \<Rightarrow> rat option"
where
  "calculateOwnershipFromRoot depth rootCompanyId targetCompanyId relations =
     (if rootCompanyId = targetCompanyId then Some 1
      else
        directLoop depth targetCompanyId relations
          (filter (\<lambda>r. parentCompanyId (company_relations r) = rootCompanyId) relations) 0)"
| "directLoop depth targetCompanyId relations [] totalOwnership = Some totalOwnership"
| "directLoop depth targetCompanyId relations (relation # rest) totalOwnership =
     (if childCompanyId (company_relations relation) = targetCompanyId then
        directLoop depth targetCompanyId relations rest
          (dadd totalOwnership
             (ddiv (parseFloat (ownershipPercentage (company_relations relation))) 100))
      else
        (case depth of
           0 \<Rightarrow> None
         | Suc deeper \<Rightarrow>
            (case calculateOwnershipFromRoot deeper
                    (childCompanyId (company_relations relation)) targetCompanyId relations of
               None \<Rightarrow> None
             | Some indirectOwnership \<Rightarrow>
                directLoop depth targetCompanyId relations rest
                  (dadd totalOwnership
                     (dmul (ddiv (parseFloat (ownershipPercentage (company_relations relation)))
                              100)
                        indirectOwnership)))))"

subsection \<open>Dashboard statistics\<close>

text \<open>
  The statistics object. \<open>totalValue\<close> and \<open>totalRentCapacity\<close> are strings of numbers
  in the source and are modelled by the numbers. The inner object \<open>leaseStats\<close> has the
  keys \<open>count\<close> and \<open>totalRentCapacity\<close>; its \<open>count\<close> is the field \<open>leaseCount\<close>.
\<close>

record leaseStatistics =
  leaseCount :: rat
  totalRentCapacity :: rat

record propertyStats =
  count :: rat
  totalValue :: rat
  latestProperty :: "property option"
  leaseStats :: leaseStatistics

text \<open>\<open>Math.round\<close> rounds to the nearest integer, a half upwards.\<close>

definition mathRound :: "rat \<Rightarrow> int" where
  "mathRound x = \<lfloor>x + 1 / 2\<rfloor>"

text \<open>\<open>ORDER BY acquisition_date DESC LIMIT 1\<close>: PostgreSQL puts \<open>NULL\<close> first in a
  descending order; rows with equal dates are kept in table order.\<close>

definition orderByAcquisitionDateDesc :: "property list \<Rightarrow> property list" where
  "orderByAcquisitionDateDesc ps =
     sort_key (\<lambda>p. case acquisitionDate p of None \<Rightarrow> None | Some t \<Rightarrow> Some (- t)) ps"

definition getPropertyStats :: "db \<Rightarrow> string \<Rightarrow> propertyStats" where
  "getPropertyStats d organizationId =
     (let orgProperties =
            filter (\<lambda>p. property_organizationId p = organizationId) (properties d);
          allLeases = getLeases d organizationId None
      in \<lparr>count = of_nat (length orgProperties),
          totalValue = sum_list (map acquisitionPrice orgProperties),
          latestProperty =
            (case orderByAcquisitionDateDesc orgProperties of [] \<Rightarrow> None | p # _ \<Rightarrow> Some p),
          leaseStats =
            \<lparr>leaseCount = of_nat (length allLeases),
               totalRentCapacity = of_int (sum_list (map (\<lambda>(l, p). totalArea l) allLeases))\<rparr>\<rparr>)"

text \<open>\<open>properties LEFT JOIN companies ON ownerCompanyId = companies.id\<close>, restricted to
  the organization: \<open>ownerCompany\<close> is \<open>null\<close> when no company joins.\<close>

type_synonym propertyRow = "property \<times> company option"

definition joinOwner :: "db \<Rightarrow> property \<Rightarrow> propertyRow list" where
  "joinOwner d p =
     (case filter (\<lambda>c. ownerCompanyId p = Some (company_id c)) (companies d) of
        [] \<Rightarrow> [(p, None)]
      | cs \<Rightarrow> map (\<lambda>c. (p, Some c)) cs)"

definition allPropertiesOf :: "db \<Rightarrow> string \<Rightarrow> propertyRow list" where
  "allPropertiesOf d organizationId =
     concat (map (joinOwner d)
               (filter (\<lambda>p. property_organizationId p = organizationId) (properties d)))"

text \<open>The first loop of \<open>calculateWeightedStats\<close>; the accumulator is the pair
  \<open>(totalWeightedCount, totalWeightedValue)\<close>.\<close>

fun weightedTotals ::
  "nat \<Rightarrow> string \<Rightarrow> relationRow list \<Rightarrow> propertyRow list \<Rightarrow> rat \<times> rat \<Rightarrow> (rat \<times> rat) option"
where
  "weightedTotals depth rootCompanyId allRelations [] acc = Some acc"
| "weightedTotals depth rootCompanyId allRelations ((property, None) # rest) acc =
     weightedTotals depth rootCompanyId allRelations rest acc"
| "weightedTotals depth rootCompanyId allRelations ((property, Some ownerCompany) # rest)
       (totalWeightedCount, totalWeightedValue) =
     (case calculateOwnershipFromRoot depth rootCompanyId (company_id ownerCompany)
             allRelations of
        None \<Rightarrow> None
      | Some ownershipWeight \<Rightarrow>
         weightedTotals depth rootCompanyId allRelations rest
           (dadd totalWeightedCount ownershipWeight,
            dadd totalWeightedValue
              (dmul (parseFloat (acquisitionPrice property)) ownershipWeight)))"

text \<open>The comparator \<open>dateB - dateA\<close> with a missing date read as \<open>0\<close>;
  \<open>Array.prototype.sort\<close> is stable.\<close>

definition sortedProperties :: "propertyRow list \<Rightarrow> propertyRow list" where
  "sortedProperties rows =
     sort_key (\<lambda>(p, c). - (case acquisitionDate p of None \<Rightarrow> 0 | Some t \<Rightarrow> t)) rows"

text \<open>The second loop: the first row, in sorted order, with a positive weight.\<close>

fun findLatest ::
  "nat \<Rightarrow> string \<Rightarrow> relationRow list \<Rightarrow> propertyRow list \<Rightarrow> property option option"
where
  "findLatest depth rootCompanyId allRelations [] = Some None"
| "findLatest depth rootCompanyId allRelations ((property, None) # rest) =
     findLatest depth rootCompanyId allRelations rest"
| "findLatest depth rootCompanyId allRelations ((property, Some ownerCompany) # rest) =
     (case calculateOwnershipFromRoot depth rootCompanyId (company_id ownerCompany)
             allRelations of
        None \<Rightarrow> None
      | Some ownershipWeight \<Rightarrow>
         if ownershipWeight > 0 then Some (Some property)
         else findLatest depth rootCompanyId allRelations rest)"

text \<open>The third loop, over the leases the user may list; \<open>rows\<close> is \<open>allProperties\<close>
  after the in-place sort. The accumulator is
  \<open>(totalWeightedLeaseCount, totalWeightedArea)\<close>.\<close>

fun weightedLeaseTotals ::
  "nat \<Rightarrow> string \<Rightarrow> relationRow list \<Rightarrow> propertyRow list \<Rightarrow> (lease \<times> property) list
     \<Rightarrow> rat \<times> rat \<Rightarrow> (rat \<times> rat) option"
where
  "weightedLeaseTotals depth rootCompanyId allRelations rows [] acc = Some acc"
| "weightedLeaseTotals depth rootCompanyId allRelations rows ((l, lp) # rest)
       (totalWeightedLeaseCount, totalWeightedArea) =
     (case find (\<lambda>(p, c). property_id p = propertyId l) rows of
        None \<Rightarrow>
          weightedLeaseTotals depth rootCompanyId allRelations rows rest
            (totalWeightedLeaseCount, totalWeightedArea)
      | Some (p, None) \<Rightarrow>
          weightedLeaseTotals depth rootCompanyId allRelations rows rest
            (totalWeightedLeaseCount, totalWeightedArea)
      | Some (p, Some ownerCompany) \<Rightarrow>
         (case calculateOwnershipFromRoot depth rootCompanyId (company_id ownerCompany)
                 allRelations of
            None \<Rightarrow> None
          | Some ownershipWeight \<Rightarrow>
             if ownershipWeight > 0 then
               weightedLeaseTotals depth rootCompanyId allRelations rows rest
                 (dadd totalWeightedLeaseCount ownershipWeight,
                  dadd totalWeightedArea (dmul (of_int (totalArea l)) ownershipWeight))
             else
               weightedLeaseTotals depth rootCompanyId allRelations rows rest
                 (totalWeightedLeaseCount, totalWeightedArea)))"

definition weightedStatsFor :: "nat \<Rightarrow> db \<Rightarrow> string \<Rightarrow> string \<Rightarrow> string \<Rightarrow> propertyStats option" where
  "weightedStatsFor depth d organizationId userId rootCompanyId =
     (let allProperties = allPropertiesOf d organizationId in
      if length allProperties = 0 then
        Some \<lparr>count = 0, totalValue = 0, latestProperty = None,
               leaseStats = \<lparr>leaseCount = 0, totalRentCapacity = 0\<rparr>\<rparr>
      else
        (let allRelations = allRelationsOf d organizationId in
         case weightedTotals depth rootCompanyId allRelations allProperties (0, 0) of
           None \<Rightarrow> None
         | Some (totalWeightedCount, totalWeightedValue) \<Rightarrow>
            (case findLatest depth rootCompanyId allRelations (sortedProperties allProperties) of
               None \<Rightarrow> None
             | Some latest \<Rightarrow>
                (case weightedLeaseTotals depth rootCompanyId allRelations
                        (sortedProperties allProperties)
                        (getLeases d organizationId (Some userId)) (0, 0) of
                   None \<Rightarrow> None
                 | Some (totalWeightedLeaseCount, totalWeightedArea) \<Rightarrow>
                    Some \<lparr>count = ddiv (of_int (mathRound (dmul totalWeightedCount 100))) 100,
                           totalValue = of_int (mathRound totalWeightedValue),
                           latestProperty = latest,
                           leaseStats =
                             \<lparr>leaseCount =
                                  ddiv (of_int (mathRound (dmul totalWeightedLeaseCount 100)))
                                    100,
                                totalRentCapacity =
                                  of_int (mathRound totalWeightedArea)\<rparr>\<rparr>))))"

text \<open>\<open>calculateWeightedStats\<close>: a user that is missing or has no assigned company
  gets the total statistics; otherwise the weighted ones from the assigned company.\<close>

definition calculateWeightedStats :: "nat \<Rightarrow> db \<Rightarrow> string \<Rightarrow> string \<Rightarrow> propertyStats option" where
  "calculateWeightedStats depth d organizationId userId =
     (case getUser d userId of
        None \<Rightarrow> Some (getPropertyStats d organizationId)
      | Some user \<Rightarrow>
         (case assignedCompanyId user of
            None \<Rightarrow> Some (getPropertyStats d organizationId)
          | Some rootCompanyId \<Rightarrow>
             if rootCompanyId = [] then Some (getPropertyStats d organizationId)
             else weightedStatsFor depth d organizationId userId rootCompanyId))"

subsection \<open>Users and company relations\<close>

text \<open>\<open>createUser\<close>: the view mode is chosen from the role of the insert, which may be
  absent (the column then takes its default \<open>user\<close>). \<open>newId\<close> is the key the database
  generates.\<close>

definition createUser ::
  "db \<Rightarrow> string \<Rightarrow> string \<Rightarrow> role option \<Rightarrow> string option \<Rightarrow> user \<times> db" where
  "createUser d newId organizationId insertRole insertAssignedCompanyId =
     (let user = \<lparr>user_id = newId, user_organizationId = organizationId,
                   role = (case insertRole of None \<Rightarrow> User | Some r \<Rightarrow> r),
                   assignedCompanyId = insertAssignedCompanyId,
                   dashboardViewMode = (if insertRole = Some Admin then Total else Weighted)\<rparr>
      in (user, d\<lparr>users := users d @ [user]\<rparr>))"

definition updateUserPreferences :: "db \<Rightarrow> string \<Rightarrow> viewMode \<Rightarrow> user option \<times> db" where
  "updateUserPreferences d userId mode =
     (let d' = d\<lparr>users := map (\<lambda>u. if user_id u = userId then u\<lparr>dashboardViewMode := mode\<rparr>
                                     else u) (users d)\<rparr>
      in (getUser d' userId, d'))"

definition createCompanyRelation ::
  "db \<Rightarrow> string \<Rightarrow> string \<Rightarrow> string \<Rightarrow> rat \<Rightarrow> companyRelation \<times> db" where
  "createCompanyRelation d newId parent child pct =
     (let newRelation = \<lparr>relation_id = newId, parentCompanyId = parent,
                          childCompanyId = child, ownershipPercentage = pct\<rparr>
      in (newRelation, d\<lparr>companyRelations := companyRelations d @ [newRelation]\<rparr>))"

text \<open>\<open>UPDATE company_relations SET ... WHERE id = :id RETURNING *\<close>: the only condition
  is the key; the result is the first updated row, or \<open>undefined\<close>.\<close>

definition updateCompanyRelation :: "db \<Rightarrow> string \<Rightarrow> rat \<Rightarrow> companyRelation option \<times> db" where
  "updateCompanyRelation d rid pct =
     (let d' = d\<lparr>companyRelations :=
                   map (\<lambda>r. if relation_id r = rid then r\<lparr>ownershipPercentage := pct\<rparr> else r)
                     (companyRelations d)\<rparr>
      in (find (\<lambda>r. relation_id r = rid) (companyRelations d'), d'))"

definition deleteCompanyRelation :: "db \<Rightarrow> string \<Rightarrow> db" where
  "deleteCompanyRelation d rid =
     d\<lparr>companyRelations := filter (\<lambda>r. relation_id r \<noteq> rid) (companyRelations d)\<rparr>"

section \<open>Authentication (server/auth.ts)\<close>

text \<open>The session is the \<open>userId\<close> it holds, if any.\<close>

definition getCurrentUser :: "db \<Rightarrow> string option \<Rightarrow> user option" where
  "getCurrentUser d session =
     (case session of None \<Rightarrow> None | Some uid \<Rightarrow> if uid = [] then None else getUser d uid)"

definition canWrite :: "user \<Rightarrow> bool" where
  "canWrite user = (role user = Admin \<or> role user = User)"

text \<open>A middleware either answers with a status (\<open>Some\<close>) or calls \<open>next()\<close> (\<open>None\<close>).\<close>

definition requireAuth :: "string option \<Rightarrow> nat option" where
  "requireAuth session = (if \<not> truthy session then Some 401 else None)"

definition requireWriteAccess :: "db \<Rightarrow> string option \<Rightarrow> nat option" where
  "requireWriteAccess d session =
     (case requireAuth session of
        Some status \<Rightarrow> Some status
      | None \<Rightarrow>
         (case getCurrentUser d session of
            None \<Rightarrow> Some 403
          | Some user \<Rightarrow> if \<not> canWrite user then Some 403 else None))"

section \<open>Routes (registerRoutes)\<close>

text \<open>A response is \<open>res.json(payload)\<close> with status 200, or \<open>res.status(n).json({message})\<close>,
  of which the status is kept.\<close>

datatype 'a response = Json 'a | Status nat



text \<open>\<open>GET /api/dashboard/stats\<close>: the branch is chosen by the stored view mode alone; an
  exception of the storage call is caught and answered with 500.\<close>

definition dashboardStats :: "nat \<Rightarrow> db \<Rightarrow> string option \<Rightarrow> propertyStats response" where
  "dashboardStats depth d session =
     (case requireAuth session of
        Some status \<Rightarrow> Status status
      | None \<Rightarrow>
         (case getCurrentUser d session of
            None \<Rightarrow> Status 401
          | Some user \<Rightarrow>
             if dashboardViewMode user = Weighted then
               (case calculateWeightedStats depth d (user_organizationId user) (user_id user) of
                  None \<Rightarrow> Status 500
                | Some stats \<Rightarrow> Json stats)
             else Json (getPropertyStats d (user_organizationId user))))"

text \<open>\<open>PUT /api/user/preferences\<close>: the body's \<open>dashboardViewMode\<close> is \<open>None\<close> when it is
  missing or neither \<open>"total"\<close> nor \<open>"weighted"\<close>.\<close>

definition putUserPreferences ::
  "db \<Rightarrow> string option \<Rightarrow> viewMode option \<Rightarrow> user response \<times> db" where
  "putUserPreferences d session bodyMode =
     (case requireAuth session of
        Some status \<Rightarrow> (Status status, d)
      | None \<Rightarrow>
         (case bodyMode of
            None \<Rightarrow> (Status 400, d)
          | Some mode \<Rightarrow>
             (case getCurrentUser d session of
                None \<Rightarrow> (Status 401, d)
              | Some user \<Rightarrow>
                 (case updateUserPreferences d (user_id user) mode of
                    (None, d') \<Rightarrow> (Status 404, d')
                  | (Some updatedUser, d') \<Rightarrow> (Json updatedUser, d')))))"

text \<open>
  \<open>POST /api/company-relations\<close>. The body fields may be missing (\<open>None\<close>); a missing or
  empty company id is falsy. The order of the checks is the source's: required
  fields, range of the percentage, both companies in the caller's organization, and the
  sum of the child's incoming percentages with the new one. The percentage of the body
  is the number it denotes, and this sum is the sum of the decimal numbers.
\<close>

definition postCompanyRelation ::
  "db \<Rightarrow> string option \<Rightarrow> string \<Rightarrow> string option \<Rightarrow> string option \<Rightarrow> rat option
     \<Rightarrow> companyRelation response \<times> db" where
  "postCompanyRelation d session newId bodyParent bodyChild bodyPercentage =
     (case requireWriteAccess d session of
        Some status \<Rightarrow> (Status status, d)
      | None \<Rightarrow>
         (case getCurrentUser d session of
            None \<Rightarrow> (Status 401, d)
          | Some user \<Rightarrow>
             (case (bodyParent, bodyChild, bodyPercentage) of
                (Some parent, Some child, Some pct) \<Rightarrow>
                  if parent = [] \<or> child = [] then (Status 400, d)
                  else if pct < 1 / 100 \<or> pct > 100 then (Status 400, d)
                  else if getCompany d parent (user_organizationId user) = None
                          \<or> getCompany d child (user_organizationId user) = None
                    then (Status 404, d)
                  else
                    (let currentTotalPercentage =
                           sum_list (map ownershipPercentage (getParentRelations d child));
                         newTotalPercentage = currentTotalPercentage + pct
                     in if newTotalPercentage > 100 then (Status 400, d)
                        else
                          (case createCompanyRelation d newId parent child pct of
                             (relation, d') \<Rightarrow> (Json relation, d')))
              | _ \<Rightarrow> (Status 400, d))))"

text \<open>
  \<open>PUT /api/company-relations/:id\<close>: after the write-access middleware and the range
  check the handler calls \<open>updateCompanyRelation\<close> with the id of the path.
  \<open>!ownershipPercentage\<close> holds for a missing value and for \<open>0\<close>.
\<close>

definition putCompanyRelation ::
  "db \<Rightarrow> string option \<Rightarrow> string \<Rightarrow> rat option \<Rightarrow> companyRelation option response \<times> db" where
  "putCompanyRelation d session rid bodyPercentage =
     (case requireWriteAccess d session of
        Some status \<Rightarrow> (Status status, d)
      | None \<Rightarrow>
         (case getCurrentUser d session of
            None \<Rightarrow> (Status 401, d)
          | Some user \<Rightarrow>
             (case bodyPercentage of
                None \<Rightarrow> (Status 400, d)
              | Some pct \<Rightarrow>
                 if pct = 0 \<or> pct < 1 / 100 \<or> pct > 100 then (Status 400, d)
                 else
                   (case updateCompanyRelation d rid pct of
                      (relation, d') \<Rightarrow> (Json relation, d')))))"

text \<open>\<open>DELETE /api/company-relations/:id\<close>: the middleware, then the delete by id.\<close>

definition deleteCompanyRelationRoute :: "db \<Rightarrow> string option \<Rightarrow> string \<Rightarrow> bool response \<times> db" where
  "deleteCompanyRelationRoute d session rid =
     (case requireWriteAccess d session of
        Some status \<Rightarrow> (Status status, d)
      | None \<Rightarrow> (Json True, deleteCompanyRelation d rid))"

section \<open>Lease tenancies: createLeaseTenant\<close>

text \<open>
  The two errors \<open>createLeaseTenant\<close> throws, by their messages:
  \<open>PeriodOverlap\<close> is "Lejeperioden overlapper med en eksisterende kontrakt",
  \<open>ActiveTenantExists\<close> is "Der er allerede en aktiv lejer for dette lejemaal".
\<close>

datatype storageError = PeriodOverlap | ActiveTenantExists

text \<open>\<open>new Date('2099-12-31').getTime()\<close>, in milliseconds.\<close>

definition date2099 :: int where
  "date2099 = 4102358400000"

text \<open>\<open>x || fallback\<close> on a date that may be \<open>null\<close>.\<close>

fun orElse :: "int option \<Rightarrow> int \<Rightarrow> int" where
  "orElse None fallback = fallback"
| "orElse (Some x) fallback = x"

text \<open>The \<open>for\<close> loop over \<open>existingTenants\<close>: the first overlap throws.\<close>

fun overlapCheck :: "int \<Rightarrow> int option \<Rightarrow> leaseTenant list \<Rightarrow> storageError option" where
  "overlapCheck newStart newEnd [] = None"
| "overlapCheck newStart newEnd (existing # rest) =
     (let existingStart = periodStart existing;
          existingEnd = periodEnd existing;
          startOverlap = (newStart \<le> orElse existingEnd date2099);
          endOverlap = (orElse newEnd date2099 \<ge> existingStart)
      in if startOverlap \<and> endOverlap then Some PeriodOverlap
         else overlapCheck newStart newEnd rest)"

text \<open>\<open>start <= today && (!end || end >= today)\<close>, for the candidate and for the filter
  of the active tenants alike.\<close>

definition containsToday :: "int \<Rightarrow> int \<Rightarrow> int option \<Rightarrow> bool" where
  "containsToday today start end' =
     (start \<le> today \<and> (case end' of None \<Rightarrow> True | Some e \<Rightarrow> e \<ge> today))"

text \<open>\<open>today\<close> is \<open>new Date()\<close> at the time of the call and \<open>newId\<close> the generated key.
  An error leaves the database as it was; success appends the row.\<close>

definition createLeaseTenant ::
  "int \<Rightarrow> string \<Rightarrow> db \<Rightarrow> leaseTenant \<Rightarrow> storageError + (leaseTenant \<times> db)" where
  "createLeaseTenant today newId d leaseTenant =
     (let existingTenants = filter (\<lambda>e. leaseId e = leaseId leaseTenant) (leaseTenants d);
          newStart = periodStart leaseTenant;
          newEnd = periodEnd leaseTenant
      in case overlapCheck newStart newEnd existingTenants of
           Some err \<Rightarrow> Inl err
         | None \<Rightarrow>
            (let isCurrentContract = containsToday today newStart newEnd;
                 activeTenants =
                   filter (\<lambda>tenant. containsToday today (periodStart tenant) (periodEnd tenant))
                     existingTenants
             in if isCurrentContract \<and> length activeTenants > 0 then Inl ActiveTenantExists
                else
                  (let newLeaseTenant = leaseTenant\<lparr>leaseTenant_id := newId\<rparr>
                   in Inr (newLeaseTenant,
                           d\<lparr>leaseTenants := leaseTenants d @ [newLeaseTenant]\<rparr>))))"

section \<open>Notions used in the statements\<close>


text \<open>\<open>edgesOf rs\<close> is the ownership graph of a list of relations, an edge from the
  parent to the child of each. \<open>reaches d R c\<close>: company \<open>c\<close> is \<open>R\<close> itself or is reached
  from \<open>R\<close> along relations of the table, whatever their organization.\<close>

definition edgesOf :: "companyRelation list \<Rightarrow> (string \<times> string) set" where
  "edgesOf rs = (\<lambda>r. (parentCompanyId r, childCompanyId r)) ` set rs"




text \<open>
  The aggregates of the weighted view in the words of the specification: a property
  with owning company \<open>c\<close> contributes \<open>weight c\<close> to the count and its acquisition price
  times \<open>weight c\<close> to the value; a property without owning company contributes nothing.
  The sums are taken in table order, from 0, with the addition and the multiplication of
  JavaScript numbers. \<open>twoDecimals\<close> rounds to two decimal places the way
  \<open>Math.round(x * 100) / 100\<close> does.
\<close>

definition weightedCountOf :: "(string \<Rightarrow> rat) \<Rightarrow> property list \<Rightarrow> rat" where
  "weightedCountOf weight ps =
     foldl (\<lambda>acc p. case ownerCompanyId p of None \<Rightarrow> acc | Some c \<Rightarrow> dadd acc (weight c)) 0 ps"

definition weightedValueOf :: "(string \<Rightarrow> rat) \<Rightarrow> property list \<Rightarrow> rat" where
  "weightedValueOf weight ps =
     foldl (\<lambda>acc p. case ownerCompanyId p of
                        None \<Rightarrow> acc
                      | Some c \<Rightarrow> dadd acc (dmul (parseFloat (acquisitionPrice p)) (weight c)))
       0 ps"

definition twoDecimals :: "rat \<Rightarrow> rat" where
  "twoDecimals x = ddiv (of_int (mathRound (dmul x 100))) 100"

text \<open>The constraints of the schema the statistics rely on: \<open>companies.id\<close> is a primary
  key, and \<open>properties.owner_company_id\<close> references it.\<close>

definition referentialIntegrity :: "db \<Rightarrow> bool" where
  "referentialIntegrity d \<longleftrightarrow>
     distinct (map company_id (companies d))
     \<and> (\<forall>p \<in> set (properties d). \<forall>c. ownerCompanyId p = Some c \<longrightarrow>
           c \<in> company_id ` set (companies d))"

text \<open>One round of the first loop of \<open>calculateWeightedStats\<close> on the pair of its
  sums, for a row whose weight is \<open>weight\<close> of the owning company.\<close>

fun rowStep :: "(string \<Rightarrow> rat) \<Rightarrow> rat \<times> rat \<Rightarrow> propertyRow \<Rightarrow> rat \<times> rat" where
  "rowStep weight (cnt, val) (p, None) = (cnt, val)"
| "rowStep weight (cnt, val) (p, Some c) =
     (dadd cnt (weight (company_id c)),
      dadd val (dmul (parseFloat (acquisitionPrice p)) (weight (company_id c))))"

text \<open>\<open>weightsKnown\<close>: the weight of every owning company among the rows is returned
  within the given depth, and is \<open>weight\<close> of its id.\<close>

definition weightsKnown ::
  "nat \<Rightarrow> string \<Rightarrow> relationRow list \<Rightarrow> (string \<Rightarrow> rat) \<Rightarrow> propertyRow list \<Rightarrow> bool" where
  "weightsKnown depth R rels weight rows \<longleftrightarrow>
     (\<forall>p c. (p, Some c) \<in> set rows \<longrightarrow>
        calculateOwnershipFromRoot depth R (company_id c) rels = Some (weight (company_id c)))"

text \<open>The overlap rule in the words of the specification, a null end read as
  2099-12-31.\<close>

definition overlaps :: "leaseTenant \<Rightarrow> leaseTenant \<Rightarrow> bool" where
  "overlaps candidate existing \<longleftrightarrow>
     periodStart candidate \<le> orElse (periodEnd existing) date2099
     \<and> orElse (periodEnd candidate) date2099 \<ge> periodStart existing"

text \<open>The sum the ownership invariant bounds: the percentages of all relations into a
  company.\<close>

definition incomingTotal :: "db \<Rightarrow> string \<Rightarrow> rat" where
  "incomingTotal d c = sum_list (map ownershipPercentage (getParentRelations d c))"

text \<open>\<open>entered c w t\<close> is the state of the traversal after the two \<open>add\<close> calls at
  the head of the body of \<open>traverseOwnership\<close>.\<close>

definition entered :: "string \<Rightarrow> rat \<Rightarrow> traversal \<Rightarrow> traversal" where
  "entered c w t =
     t\<lparr>visitedCompanies := setAdd c (visitedCompanies t),
       accessibleCompanies :=
         (if w > 0 then setAdd c (accessibleCompanies t) else accessibleCompanies t)\<rparr>"

section \<open>Example databases\<close>

text \<open>
  \<open>chainDb\<close>: one organization in which company A owns 60% of B and B owns 50% of C.
  Property P (acquired for 1,000,000) belongs to C and carries lease L; property Q has
  no owning company. User u1 is a regular user assigned to A, user u0 a regular user with
  no assigned company.
\<close>

definition chainUser :: user where
  "chainUser = \<lparr>user_id = ''u1'', user_organizationId = ''org1'', role = User,
                 assignedCompanyId = Some ''A'', dashboardViewMode = Weighted\<rparr>"

definition unassignedUser :: user where
  "unassignedUser = \<lparr>user_id = ''u0'', user_organizationId = ''org1'', role = User,
                      assignedCompanyId = None, dashboardViewMode = Weighted\<rparr>"

definition propertyP :: property where
  "propertyP = \<lparr>property_id = ''P'', property_organizationId = ''org1'',
                 ownerCompanyId = Some ''C'', acquisitionPrice = 1000000,
                 acquisitionDate = Some 1704067200000\<rparr>"

definition propertyQ :: property where
  "propertyQ = \<lparr>property_id = ''Q'', property_organizationId = ''org1'',
                 ownerCompanyId = None, acquisitionPrice = 500,
                 acquisitionDate = None\<rparr>"

definition leaseL :: lease where
  "leaseL = \<lparr>lease_id = ''L'', lease_organizationId = ''org1'', propertyId = ''P'',
              totalArea = 100\<rparr>"

definition org1Companies :: "company list" where
  "org1Companies = [\<lparr>company_id = ''A'', company_organizationId = ''org1''\<rparr>,
                    \<lparr>company_id = ''B'', company_organizationId = ''org1''\<rparr>,
                    \<lparr>company_id = ''C'', company_organizationId = ''org1''\<rparr>]"

definition chainDb :: db where
  "chainDb =
     \<lparr>users = [chainUser, unassignedUser],
      companies = org1Companies,
      companyRelations =
        [\<lparr>relation_id = ''r1'', parentCompanyId = ''A'', childCompanyId = ''B'',
           ownershipPercentage = 60\<rparr>,
         \<lparr>relation_id = ''r2'', parentCompanyId = ''B'', childCompanyId = ''C'',
           ownershipPercentage = 50\<rparr>],
      properties = [propertyP, propertyQ],
      leases = [leaseL],
      leaseTenants = []\<rparr>"

text \<open>\<open>cycleDb\<close>: A owns half of B and B owns half of A. \<open>cycleBack\<close> is the state of the
  traversal from A at the moment the loop over the relations of B comes back to A.\<close>

definition cycleDb :: db where
  "cycleDb =
     \<lparr>users = [], companies = org1Companies,
      companyRelations =
        [\<lparr>relation_id = ''r1'', parentCompanyId = ''A'', childCompanyId = ''B'',
           ownershipPercentage = 50\<rparr>,
         \<lparr>relation_id = ''r2'', parentCompanyId = ''B'', childCompanyId = ''A'',
           ownershipPercentage = 50\<rparr>],
      properties = [], leases = [], leaseTenants = []\<rparr>"

definition cycleBack :: traversal where
  "cycleBack = \<lparr>visitedCompanies = [''A'', ''B''], accessibleCompanies = [''A'', ''B'']\<rparr>"




text \<open>\<open>centDb\<close>: user u1 is assigned company A, which owns property H, acquired for
  100.50.\<close>

definition propertyH :: property where
  "propertyH = \<lparr>property_id = ''H'', property_organizationId = ''org1'',
                 ownerCompanyId = Some ''A'', acquisitionPrice = 201 / 2,
                 acquisitionDate = None\<rparr>"

definition centDb :: db where
  "centDb =
     \<lparr>users = [chainUser], companies = org1Companies, companyRelations = [],
      properties = [propertyH], leases = [], leaseTenants = []\<rparr>"

text \<open>
  Tenancies of lease L, with their dates in milliseconds since 1970:
  \<open>openTenancy\<close> runs from 2023-01-01 with no end, \<open>fixedTenancy\<close> from 2024-03-01 to
  2024-09-30. The candidates: \<open>springTenancy\<close> 2024-01-01 to 2024-06-30,
  \<open>earlierTenancy\<close> 2022-01-01 to 2022-12-31, \<open>secondOpenTenancy\<close> from 2024-01-01
  with no end, and \<open>lateTenancy\<close> 2100-01-01 to 2100-06-30; a candidate has no key
  yet. \<open>june2024\<close> is 2024-06-01.
\<close>

definition openTenancy :: leaseTenant where
  "openTenancy = \<lparr>leaseTenant_id = ''t1'', leaseId = ''L'',
                   periodStart = 1672531200000, periodEnd = None\<rparr>"

definition fixedTenancy :: leaseTenant where
  "fixedTenancy = \<lparr>leaseTenant_id = ''t2'', leaseId = ''L'',
                    periodStart = 1709251200000, periodEnd = Some 1727654400000\<rparr>"

definition springTenancy :: leaseTenant where
  "springTenancy = \<lparr>leaseTenant_id = [], leaseId = ''L'',
                     periodStart = 1704067200000, periodEnd = Some 1719705600000\<rparr>"

definition earlierTenancy :: leaseTenant where
  "earlierTenancy = \<lparr>leaseTenant_id = [], leaseId = ''L'',
                      periodStart = 1640995200000, periodEnd = Some 1672444800000\<rparr>"

definition secondOpenTenancy :: leaseTenant where
  "secondOpenTenancy = \<lparr>leaseTenant_id = [], leaseId = ''L'',
                         periodStart = 1704067200000, periodEnd = None\<rparr>"

definition lateTenancy :: leaseTenant where
  "lateTenancy = \<lparr>leaseTenant_id = [], leaseId = ''L'',
                   periodStart = 4102444800000, periodEnd = Some 4117996800000\<rparr>"

definition june2024 :: int where
  "june2024 = 1717200000000"

definition openDb :: db where
  "openDb = \<lparr>users = [], companies = [], companyRelations = [], properties = [],
              leases = [leaseL], leaseTenants = [openTenancy]\<rparr>"

definition fixedDb :: db where
  "fixedDb = \<lparr>users = [], companies = [], companyRelations = [], properties = [],
               leases = [leaseL], leaseTenants = [fixedTenancy]\<rparr>"

text \<open>
  \<open>ownersDb\<close>: administrator a1 of organization org1 and its three companies, with no
  relation yet. Two accepted creations give C the owners A and B with 50% each; an
  accepted update then sets the share of A to 100%.
\<close>

definition adminUser :: user where
  "adminUser = \<lparr>user_id = ''a1'', user_organizationId = ''org1'', role = Admin,
                 assignedCompanyId = None, dashboardViewMode = Total\<rparr>"

definition ownersDb :: db where
  "ownersDb = \<lparr>users = [adminUser], companies = org1Companies, companyRelations = [],
                properties = [], leases = [], leaseTenants = []\<rparr>"

definition afterFirstPost :: db where
  "afterFirstPost =
     snd (postCompanyRelation ownersDb (Some ''a1'') ''r1'' (Some ''A'') (Some ''C'') (Some 50))"

definition afterSecondPost :: db where
  "afterSecondPost =
     snd (postCompanyRelation afterFirstPost (Some ''a1'') ''r2'' (Some ''B'') (Some ''C'')
            (Some 50))"

definition afterUpdate :: db where
  "afterUpdate = snd (putCompanyRelation afterSecondPost (Some ''a1'') ''r1'' (Some 100))"

text \<open>\<open>twoOrgDb\<close>: administrator a1 belongs to org1; the companies X and Y and the
  relation rx between them belong to org2.\<close>

definition relationX :: companyRelation where
  "relationX = \<lparr>relation_id = ''rx'', parentCompanyId = ''X'', childCompanyId = ''Y'',
                 ownershipPercentage = 30\<rparr>"

definition twoOrgDb :: db where
  "twoOrgDb =
     \<lparr>users = [adminUser],
      companies = [\<lparr>company_id = ''A'', company_organizationId = ''org1''\<rparr>,
                   \<lparr>company_id = ''X'', company_organizationId = ''org2''\<rparr>,
                   \<lparr>company_id = ''Y'', company_organizationId = ''org2''\<rparr>],
      companyRelations = [relationX],
      properties = [], leases = [], leaseTenants = []\<rparr>"

text \<open>\<open>brokerDb\<close>: \<open>chainDb\<close> after a broker b1, assigned to company A, has been created
  the way an accepted invitation creates a user.\<close>

definition brokerDb :: db where
  "brokerDb = snd (createUser chainDb ''b1'' ''org1'' (Some Broker) (Some ''A''))"




text \<open>\<open>loopDb\<close>: the relations of \<open>cycleDb\<close> with user u1, assigned to A, and property P
  of company C.\<close>

definition loopDb :: db where
  "loopDb = cycleDb\<lparr>users := [chainUser], properties := [propertyP]\<rparr>"

text \<open>\<open>fractionDb\<close>: user u1 is assigned company A, which owns 14.50% of B; property F
  of company B was acquired for 100.\<close>

definition propertyF :: property where
  "propertyF = \<lparr>property_id = ''F'', property_organizationId = ''org1'',
                 ownerCompanyId = Some ''B'', acquisitionPrice = 100,
                 acquisitionDate = None\<rparr>"

definition fractionDb :: db where
  "fractionDb =
     \<lparr>users = [chainUser], companies = org1Companies,
      companyRelations =
        [\<lparr>relation_id = ''r1'', parentCompanyId = ''A'', childCompanyId = ''B'',
           ownershipPercentage = 29 / 2\<rparr>],
      properties = [propertyF], leases = [], leaseTenants = []\<rparr>"

section \<open>Bounds on double arithmetic\<close>

text \<open>
  Rounding to the nearest double never goes below a power of two that the exact value
  has reached, down to the smallest positive double \<open>2^-1074\<close>. Hence a weight of
  Algorithm A that is at least \<open>2^a\<close> passes on at least \<open>2^(a - 14)\<close> through a relation
  of 0.01% or more: the product and the quotient lose less than a factor \<open>2^7\<close> each.
\<close>

lemma log2floor_nonneg: "0 \<le> log2floor n"
  by (induction n rule: log2floor.induct) (subst log2floor.simps, simp)

lemma log2floor_bounds:
  "1 \<le> n \<Longrightarrow> 2 ^ nat (log2floor n) \<le> n \<and> n < 2 ^ nat (log2floor n + 1)"
proof (induction n rule: log2floor.induct)
  case (1 n)
  show ?case
  proof (cases "n \<le> 1")
    case True
    with 1(2) have "n = 1" by simp
    then show ?thesis by (subst (1 2) log2floor.simps) simp
  next
    case False
    then have h: "1 \<le> n div 2" by simp
    from 1(1)[OF False h]
    have ih: "2 ^ nat (log2floor (n div 2)) \<le> n div 2"
             "n div 2 < 2 ^ nat (log2floor (n div 2) + 1)" by simp_all
    have e: "log2floor n = 1 + log2floor (n div 2)"
      using False by (subst log2floor.simps) simp
    have n1: "nat (1 + log2floor (n div 2)) = Suc (nat (log2floor (n div 2)))"
      using log2floor_nonneg[of "n div 2"] by simp
    have n2: "nat (1 + log2floor (n div 2) + 1) = Suc (Suc (nat (log2floor (n div 2))))"
      using log2floor_nonneg[of "n div 2"] by simp
    have n3: "nat (log2floor (n div 2) + 1) = Suc (nat (log2floor (n div 2)))"
      using log2floor_nonneg[of "n div 2"] by simp
    define p where "p = (2::int) ^ nat (log2floor (n div 2))"
    from ih have "p \<le> n div 2" "n div 2 < 2 * p" unfolding n3 p_def by simp_all
    then have "2 * p \<le> n \<and> n < 2 * (2 * p)" by presburger
    then show ?thesis unfolding e n1 n2 p_def by simp
  qed
qed

lemma pow2_nat: "0 \<le> k \<Longrightarrow> power_int (2::rat) k = 2 ^ nat k"
  by (simp add: power_int_def)

lemma pow2_neg: "0 \<le> k \<Longrightarrow> power_int (2::rat) (- k) = 1 / 2 ^ nat k"
  by (simp add: power_int_minus_divide power_int_def power_one_over)

lemma binaryExponent_bounds:
  assumes "0 < x"
  shows "power_int 2 (binaryExponent x) \<le> x" "x < power_int 2 (binaryExponent x + 1)"
proof -
  show "power_int 2 (binaryExponent x) \<le> x"
  proof (cases "1 \<le> x")
    case True
    then have "1 \<le> \<lfloor>x\<rfloor>" by simp
    from log2floor_bounds[OF this] have "2 ^ nat (log2floor \<lfloor>x\<rfloor>) \<le> \<lfloor>x\<rfloor>" by simp
    then have "(of_int (2 ^ nat (log2floor \<lfloor>x\<rfloor>)) :: rat) \<le> of_int \<lfloor>x\<rfloor>"
      by (simp only: of_int_le_iff)
    also have "\<dots> \<le> x" by simp
    finally show ?thesis using True log2floor_nonneg[of "\<lfloor>x\<rfloor>"]
      by (simp add: binaryExponent_def pow2_nat)
  next
    case False
    define m where "m = \<lceil>1 / x\<rceil> - 1"
    define J where "J = nat (log2floor m)"
    from False assms have y: "1 < 1 / x" by simp
    then have "1 < \<lceil>1 / x\<rceil>" by (simp add: less_ceiling_iff)
    then have m1: "1 \<le> m" unfolding m_def by simp
    from log2floor_bounds[OF m1] have "m < 2 ^ nat (log2floor m + 1)" by simp
    then have "m + 1 \<le> 2 ^ Suc J"
      unfolding J_def using log2floor_nonneg[of m] by (simp add: nat_add_distrib)
    then have "\<lceil>1 / x\<rceil> \<le> 2 ^ Suc J" unfolding m_def by simp
    then have "1 / x \<le> of_int (2 ^ Suc J)" by (simp only: ceiling_le_iff)
    then have "1 / x \<le> 2 ^ Suc J" by simp
    with assms have "1 / 2 ^ Suc J \<le> x"
      by (simp add: field_simps)
    moreover have "binaryExponent x = - (1 + log2floor m)"
      using False by (simp add: binaryExponent_def m_def)
    moreover have "nat (1 + log2floor m) = Suc J"
      unfolding J_def using log2floor_nonneg[of m] by simp
    ultimately show ?thesis
      using pow2_neg[of "1 + log2floor m"] log2floor_nonneg[of m] by simp
  qed
  show "x < power_int 2 (binaryExponent x + 1)"
  proof (cases "1 \<le> x")
    case True
    then have f1: "1 \<le> \<lfloor>x\<rfloor>" by simp
    define K where "K = nat (log2floor \<lfloor>x\<rfloor> + 1)"
    from log2floor_bounds[OF f1] have "\<lfloor>x\<rfloor> + 1 \<le> 2 ^ K" unfolding K_def by simp
    then have "(of_int (\<lfloor>x\<rfloor> + 1) :: rat) \<le> of_int (2 ^ K)" by (simp only: of_int_le_iff)
    moreover have "x < of_int (\<lfloor>x\<rfloor> + 1)" by linarith
    ultimately have "x < 2 ^ K" by simp
    then show ?thesis using True log2floor_nonneg[of "\<lfloor>x\<rfloor>"]
      by (simp add: binaryExponent_def pow2_nat K_def)
  next
    case False
    define m where "m = \<lceil>1 / x\<rceil> - 1"
    define J where "J = nat (log2floor m)"
    from False assms have y: "1 < 1 / x" by simp
    then have "1 < \<lceil>1 / x\<rceil>" by (simp add: less_ceiling_iff)
    then have m1: "1 \<le> m" unfolding m_def by simp
    from log2floor_bounds[OF m1] have "2 ^ J \<le> m" unfolding J_def by simp
    then have "(of_int (2 ^ J) :: rat) \<le> of_int m" by (simp only: of_int_le_iff)
    moreover have "of_int m < 1 / x" unfolding m_def by linarith
    ultimately have "(of_int (2 ^ J) :: rat) < 1 / x" by (rule le_less_trans)
    then have "2 ^ J < 1 / x" by simp
    with assms have "x < 1 / 2 ^ J" by (simp add: field_simps)
    moreover have "binaryExponent x + 1 = - log2floor m"
      using False by (simp add: binaryExponent_def m_def)
    ultimately show ?thesis
      using pow2_neg[of "log2floor m"] log2floor_nonneg[of m] by (simp add: J_def)
  qed
qed

lemma roundHalfEven_ge: "of_int m \<le> y \<Longrightarrow> m \<le> roundHalfEven y"
proof -
  assume "of_int m \<le> y"
  then have "m \<le> \<lfloor>y\<rfloor>" by (simp add: le_floor_iff)
  then show ?thesis by (simp add: roundHalfEven_def Let_def)
qed

lemma double_ge_pow2:
  assumes "power_int 2 n \<le> x" and "- 1074 \<le> n"
  shows "power_int 2 n \<le> double x"
proof -
  have pn: "(0::rat) < power_int 2 n" by (simp add: zero_less_power_int)
  from pn assms(1) have x: "0 < x" by (rule less_le_trans)
  define e where "e = binaryExponent x"
  define q where "q = max (e - 52) (- 1074)"
  define r where "r = roundHalfEven (x / power_int 2 q)"
  have pq: "(0::rat) < power_int 2 q" by (simp add: zero_less_power_int)
  have d: "double x = of_int r * power_int 2 q"
    using x by (simp add: double_def Let_def e_def q_def r_def)
  have lo: "power_int 2 e \<le> x" and hi: "x < power_int 2 (e + 1)"
    unfolding e_def using binaryExponent_bounds[OF x] by simp_all
  have ne: "n \<le> e"
  proof (rule ccontr)
    assume "\<not> n \<le> e"
    then have "e + 1 \<le> n" by simp
    then have "power_int (2::rat) (e + 1) \<le> power_int 2 n"
      by (intro power_int_increasing) simp_all
    with hi assms(1) show False by simp
  qed
  show ?thesis
  proof (cases "q \<le> n")
    case True
    define k where "k = nat (n - q)"
    have "power_int (2::rat) n = power_int 2 (n - q) * power_int 2 q"
      by (simp add: power_int_diff)
    also have "power_int (2::rat) (n - q) = 2 ^ k"
      unfolding k_def using True by (simp add: pow2_nat)
    finally have n: "power_int (2::rat) n = 2 ^ k * power_int 2 q" .
    with assms(1) pq have "2 ^ k \<le> x / power_int 2 q"
      by (simp add: field_simps)
    then have "of_int (2 ^ k) \<le> x / power_int 2 q" by simp
    then have "2 ^ k \<le> r" unfolding r_def by (rule roundHalfEven_ge)
    then have "(of_int (2 ^ k) :: rat) \<le> of_int r" by (simp only: of_int_le_iff)
    then have "(2 ^ k :: rat) \<le> of_int r" by simp
    with pq have "2 ^ k * power_int (2::rat) q \<le> of_int r * power_int 2 q"
      by (simp add: mult_right_mono)
    then show ?thesis unfolding d n .
  next
    case False
    with assms(2) have q: "q = e - 52" unfolding q_def by simp
    have "power_int (2::rat) e = power_int 2 (e - q) * power_int 2 q"
      by (simp add: power_int_diff)
    also have "power_int (2::rat) (e - q) = 2 ^ 52" unfolding q by simp
    finally have "2 ^ 52 * power_int 2 q \<le> x" using lo by simp
    with pq have "2 ^ 52 \<le> x / power_int 2 q" by (simp add: field_simps)
    moreover have "(1::rat) \<le> 2 ^ 52" by simp
    ultimately have "1 \<le> x / power_int 2 q" by (rule order_trans[rotated])
    then have "of_int 1 \<le> x / power_int 2 q" by (simp only: of_int_1)
    then have "1 \<le> r" unfolding r_def by (rule roundHalfEven_ge)
    then have "(1::rat) \<le> of_int r" by simp
    with pq have "1 * power_int (2::rat) q \<le> of_int r * power_int 2 q"
      by (intro mult_right_mono) simp_all
    then have "power_int (2::rat) q \<le> of_int r * power_int 2 q" by (simp only: mult_1)
    moreover have "power_int (2::rat) n \<le> power_int 2 q"
      using False by (intro power_int_increasing) simp_all
    ultimately show ?thesis unfolding d by (rule order_trans[rotated])
  qed
qed

lemma double_pos: "power_int 2 n \<le> x \<Longrightarrow> - 1074 \<le> n \<Longrightarrow> 0 < double x"
proof -
  assume "power_int 2 n \<le> x" "- 1074 \<le> n"
  then have "power_int 2 n \<le> double x" by (rule double_ge_pow2)
  moreover have "(0::rat) < power_int 2 n" by (simp add: zero_less_power_int)
  ultimately show ?thesis by linarith
qed


section \<open>Access control: Algorithm A and the listings\<close>

lemma traverseOwnership_unfold:
  "traverseOwnership d c w t =
     (if c \<in> set (visitedCompanies t) then t
      else traverseChildren d w (getChildRelations d c) (entered c w t))"
  by (simp add: entered_def)

lemma entered_sets:
  "set (visitedCompanies (entered c w t)) = insert c (set (visitedCompanies t))"
  "set (accessibleCompanies t) \<subseteq> set (accessibleCompanies (entered c w t))"
  "w > 0 \<Longrightarrow> c \<in> set (accessibleCompanies (entered c w t))"
  "distinct (visitedCompanies t) \<Longrightarrow> distinct (visitedCompanies (entered c w t))"
  by (auto simp: entered_def setAdd_def)


lemma traverse_visited_distinct:
  "distinct (visitedCompanies t) \<Longrightarrow>
     distinct (visitedCompanies (traverseOwnership d c w t))"
  "distinct (visitedCompanies t) \<Longrightarrow>
     distinct (visitedCompanies (traverseChildren d w rs t))"
proof (induction d c w t and d w rs t rule: traverseOwnership_traverseChildren.induct)
  case (1 d c w t)
  show ?case
  proof (cases "c \<in> set (visitedCompanies t)")
    case True
    with 1 show ?thesis by simp
  next
    case False
    have "distinct (visitedCompanies (entered c w t))"
      using 1(2) by (rule entered_sets(4))
    with 1(1) False
    have "distinct (visitedCompanies
                      (traverseChildren d w (getChildRelations d c) (entered c w t)))"
      by (simp add: entered_def)
    with False show ?thesis
      unfolding traverseOwnership_unfold[of d c w t] by simp
  qed
next
  case (2 d w t)
  then show ?case by simp
next
  case (3 d w r rs t)
  then show ?case by (auto simp del: traverseOwnership.simps)
qed










lemma chain_accessible: "getAccessibleCompanyIds chainDb ''A'' = [''A'', ''B'', ''C'']"
  by code_simp

lemma cycle_accessible: "getAccessibleCompanyIds cycleDb ''A'' = [''A'', ''B'']"
  by code_simp

subsection \<open>What Algorithm A computes\<close>























text \<open>
  C9. The traversal of Algorithm A terminates from every company, weight and pair of
  sets, in every database (a finite list of relations, with or without cycles): every
  call lies in the domain of the recursion, which is the accessible part of its call
  relation. A call on a company that is already visited returns the state unchanged,
  and the visited set never holds a company twice.
\<close>

theorem traverseOwnership_terminates:
  "traverseOwnership_traverseChildren_dom (Inl (d, companyId, w, t))
   \<and> (companyId \<in> set (visitedCompanies t) \<longrightarrow> traverseOwnership d companyId w t = t)
   \<and> (distinct (visitedCompanies t) \<longrightarrow>
        distinct (visitedCompanies (traverseOwnership d companyId w t)))"
proof (intro conjI impI)
  show "traverseOwnership_traverseChildren_dom (Inl (d, companyId, w, t))"
    using traverse_total by blast
next
  assume "companyId \<in> set (visitedCompanies t)"
  then show "traverseOwnership d companyId w t = t" by simp
next
  assume "distinct (visitedCompanies t)"
  then show "distinct (visitedCompanies (traverseOwnership d companyId w t))"
    by (rule traverse_visited_distinct(1))
qed

text \<open>On the cycle A, B, A the call that comes back to A returns at once, and the whole
  traversal from A ends with A and B accessible.\<close>

theorem traverseOwnership_terminates_witness:
  "''A'' \<in> set (visitedCompanies cycleBack) \<and> distinct (visitedCompanies cycleBack)
   \<and> traverseOwnership_traverseChildren_dom (Inl (cycleDb, ''A'', 25, cycleBack))
   \<and> traverseOwnership cycleDb ''A'' 25 cycleBack = cycleBack
   \<and> distinct (visitedCompanies (traverseOwnership cycleDb ''A'' 25 cycleBack))
   \<and> getAccessibleCompanyIds cycleDb ''A'' = [''A'', ''B'']"
proof -
  have h: "''A'' \<in> set (visitedCompanies cycleBack)" "distinct (visitedCompanies cycleBack)"
    by (simp_all add: cycleBack_def)
  with traverseOwnership_terminates[of cycleDb "''A''" 25 cycleBack] cycle_accessible
  show ?thesis by blast
qed



section \<open>Ownership weight: Algorithm B\<close>

text \<open>A weight that is returned within some stack depth is returned, with the same
  value, within every greater depth.\<close>

lemma depth_mono:
  "calculateOwnershipFromRoot n r t rels = Some w \<Longrightarrow> n \<le> m \<Longrightarrow>
     calculateOwnershipFromRoot m r t rels = Some w"
  "directLoop n t rels xs acc = Some w \<Longrightarrow> n \<le> m \<Longrightarrow>
     directLoop m t rels xs acc = Some w"
proof (induction n r t rels and n t rels xs acc arbitrary: m w and m w
       rule: calculateOwnershipFromRoot_directLoop.induct)
  case (1 depth rootCompanyId targetCompanyId relations)
  show ?case
  proof (cases "rootCompanyId = targetCompanyId")
    case True
    with "1.prems"(1) show ?thesis by simp
  next
    case False
    let ?direct = "filter (\<lambda>r. parentCompanyId (company_relations r) = rootCompanyId) relations"
    from "1.prems"(1) False
    have "directLoop depth targetCompanyId relations ?direct 0 = Some w" by simp
    from "1.IH"[OF False this "1.prems"(2)] False show ?thesis by simp
  qed
next
  case (2 depth targetCompanyId relations totalOwnership)
  then show ?case by simp
next
  case (3 depth targetCompanyId relations relation rest totalOwnership)
  show ?case
  proof (cases "childCompanyId (company_relations relation) = targetCompanyId")
    case True
    with "3.prems"(1)
    have "directLoop depth targetCompanyId relations rest
            (dadd totalOwnership
               (ddiv (parseFloat (ownershipPercentage (company_relations relation))) 100))
          = Some w"
      by (simp del: calculateOwnershipFromRoot.simps)
    from "3.IH"(1)[OF True this "3.prems"(2)] True show ?thesis
      by (simp del: calculateOwnershipFromRoot.simps)
  next
    case False
    with "3.prems" obtain deeper ind where
      d: "depth = Suc deeper" and
      i: "calculateOwnershipFromRoot deeper (childCompanyId (company_relations relation))
            targetCompanyId relations = Some ind" and
      r: "directLoop depth targetCompanyId relations rest
            (dadd totalOwnership
               (dmul (ddiv (parseFloat (ownershipPercentage (company_relations relation))) 100)
                  ind))
          = Some w"
      by (auto simp del: calculateOwnershipFromRoot.simps split: nat.splits option.splits)
    from "3.prems"(2) d obtain m' where m: "m = Suc m'" "deeper \<le> m'"
      by (cases m) auto
    have i': "calculateOwnershipFromRoot m' (childCompanyId (company_relations relation))
            targetCompanyId relations = Some ind"
      using "3.IH"(2)[OF False d i m(2)] .
    have r': "directLoop m targetCompanyId relations rest
            (dadd totalOwnership
               (dmul (ddiv (parseFloat (ownershipPercentage (company_relations relation))) 100)
                  ind))
          = Some w"
      using "3.IH"(3)[OF False d i r "3.prems"(2)] .
    from False m i' r' show ?thesis
      by (simp del: calculateOwnershipFromRoot.simps)
  qed
qed

text \<open>Without a visited set a cycle that avoids the target exhausts every depth: in
  \<open>cycleDb\<close> the weight from A (or from B) to C is never returned.\<close>

lemma cycle_relations:
  "allRelationsOf cycleDb ''org1'' =
     [(\<lparr>relation_id = ''r1'', parentCompanyId = ''A'', childCompanyId = ''B'',
         ownershipPercentage = 50\<rparr>, \<lparr>company_id = ''A'', company_organizationId = ''org1''\<rparr>),
      (\<lparr>relation_id = ''r2'', parentCompanyId = ''B'', childCompanyId = ''A'',
         ownershipPercentage = 50\<rparr>, \<lparr>company_id = ''B'', company_organizationId = ''org1''\<rparr>)]"
  by (simp add: allRelationsOf_def cycleDb_def org1Companies_def)

lemma cycle_runs_out:
  "calculateOwnershipFromRoot depth ''A'' ''C'' (allRelationsOf cycleDb ''org1'') = None
   \<and> calculateOwnershipFromRoot depth ''B'' ''C'' (allRelationsOf cycleDb ''org1'') = None"
  unfolding cycle_relations
proof (induction depth)
  case 0
  show ?case by (simp add: company_relations_def)
next
  case (Suc depth)
  then show ?case
    by (simp add: company_relations_def del: calculateOwnershipFromRoot.simps
          add: calculateOwnershipFromRoot.simps[of "Suc depth"])
qed

lemma chain_relations:
  "allRelationsOf chainDb ''org1'' =
     [(\<lparr>relation_id = ''r1'', parentCompanyId = ''A'', childCompanyId = ''B'',
         ownershipPercentage = 60\<rparr>, \<lparr>company_id = ''A'', company_organizationId = ''org1''\<rparr>),
      (\<lparr>relation_id = ''r2'', parentCompanyId = ''B'', childCompanyId = ''C'',
         ownershipPercentage = 50\<rparr>, \<lparr>company_id = ''B'', company_organizationId = ''org1''\<rparr>)]"
  by (simp add: allRelationsOf_def chainDb_def org1Companies_def)


text \<open>The arithmetic of the two scenarios of the specification, in doubles.\<close>

lemma scenario_arithmetic:
  "dadd 0 (ddiv (parseFloat 50) 100) = 1 / 2"
  "dadd 0 (dmul (ddiv (parseFloat 60) 100) (1 / 2)) = double (3 / 10)"
  "dadd 0 (ddiv (parseFloat 100) 100) = 1"
  "dadd (dadd 0 (ddiv (parseFloat 60) 100)) (dmul (ddiv (parseFloat 40) 100) 1) = 1"
  by code_simp+



section \<open>Weighted statistics\<close>

lemma filter_key_unique:
  "distinct (map k xs) \<Longrightarrow> x \<in> set xs \<Longrightarrow> filter (\<lambda>y. k y = k x) xs = [x]"
proof (induction xs)
  case Nil
  then show ?case by simp
next
  case (Cons y ys)
  show ?case
  proof (cases "y = x")
    case True
    with Cons.prems have "k x \<notin> k ` set ys" by simp
    then have "\<forall>z \<in> set ys. k z \<noteq> k x" by (metis imageI)
    then have "filter (\<lambda>y. k y = k x) ys = []" by (simp add: filter_empty_conv)
    with True show ?thesis by simp
  next
    case False
    with Cons.prems have "x \<in> set ys" "k y \<noteq> k x" by auto
    with Cons show ?thesis by simp
  qed
qed

lemma joinOwner_None: "ownerCompanyId p = None \<Longrightarrow> joinOwner d p = [(p, None)]"
  unfolding joinOwner_def by simp

lemma joinOwner_Some:
  assumes "referentialIntegrity d" "p \<in> set (properties d)" "ownerCompanyId p = Some cid"
  shows "\<exists>c. company_id c = cid \<and> joinOwner d p = [(p, Some c)]"
proof -
  from assms obtain c where c: "c \<in> set (companies d)" "company_id c = cid"
    unfolding referentialIntegrity_def by auto
  have "distinct (map company_id (companies d))"
    using assms(1) unfolding referentialIntegrity_def by simp
  from filter_key_unique[OF this c(1)]
  have "filter (\<lambda>y. company_id y = company_id c) (companies d) = [c]" .
  moreover have "filter (\<lambda>y. ownerCompanyId p = Some (company_id y)) (companies d)
                   = filter (\<lambda>y. company_id y = company_id c) (companies d)"
    using assms(3) c(2) by (intro filter_cong) auto
  ultimately have "joinOwner d p = [(p, Some c)]"
    unfolding joinOwner_def by simp
  with c(2) show ?thesis by blast
qed

lemma joinOwner_row:
  assumes "(p, Some c) \<in> set (joinOwner d q)"
  shows "p = q \<and> ownerCompanyId q = Some (company_id c)"
proof -
  let ?cs = "filter (\<lambda>c. ownerCompanyId q = Some (company_id c)) (companies d)"
  have "(p, Some c) \<in> (\<lambda>c. (q, Some c)) ` set ?cs"
    using assms unfolding joinOwner_def by (cases ?cs) auto
  then show ?thesis by auto
qed

lemma allPropertiesOf_row:
  assumes "(p, Some c) \<in> set (allPropertiesOf d org)"
  shows "p \<in> set (properties d) \<and> property_organizationId p = org
           \<and> ownerCompanyId p = Some (company_id c)"
proof -
  from assms obtain q where "q \<in> set (properties d)" "property_organizationId q = org"
      "(p, Some c) \<in> set (joinOwner d q)"
    unfolding allPropertiesOf_def by auto
  with joinOwner_row[of p c d q] show ?thesis by simp
qed

lemma allPropertiesOf_owner:
  assumes "referentialIntegrity d" "p \<in> set (properties d)"
    "property_organizationId p = org" "ownerCompanyId p = Some cid"
  shows "\<exists>c. company_id c = cid \<and> (p, Some c) \<in> set (allPropertiesOf d org)"
proof -
  from joinOwner_Some[OF assms(1,2,4)]
  obtain c where c: "company_id c = cid" "joinOwner d p = [(p, Some c)]" by blast
  with assms(2,3) have "(p, Some c) \<in> set (allPropertiesOf d org)"
    unfolding allPropertiesOf_def by auto
  with c(1) show ?thesis by blast
qed

lemma weightsKnown_Cons:
  "weightsKnown depth R rels weight (row # rows) \<Longrightarrow> weightsKnown depth R rels weight rows"
  unfolding weightsKnown_def by auto

lemma weightedTotals_fold:
  "weightsKnown depth R rels weight rows \<Longrightarrow>
     weightedTotals depth R rels rows acc = Some (foldl (rowStep weight) acc rows)"
proof (induction rows arbitrary: acc)
  case Nil
  then show ?case by simp
next
  case (Cons row rows)
  obtain p oc where row: "row = (p, oc)" by (cases row)
  obtain a b where acc: "acc = (a, b)" by (cases acc)
  have rest: "weightsKnown depth R rels weight rows"
    using Cons.prems by (rule weightsKnown_Cons)
  show ?case
  proof (cases oc)
    case None
    with row acc Cons.IH[OF rest] show ?thesis by simp
  next
    case (Some c)
    with row Cons.prems
    have "calculateOwnershipFromRoot depth R (company_id c) rels = Some (weight (company_id c))"
      unfolding weightsKnown_def by simp
    with row acc Some Cons.IH[OF rest] show ?thesis
      by (simp del: calculateOwnershipFromRoot.simps)
  qed
qed

lemma findLatest_returns:
  "weightsKnown depth R rels weight rows \<Longrightarrow> \<exists>latest. findLatest depth R rels rows = Some latest"
proof (induction rows)
  case Nil
  then show ?case by simp
next
  case (Cons row rows)
  obtain p oc where row: "row = (p, oc)" by (cases row)
  have rest: "weightsKnown depth R rels weight rows"
    using Cons.prems by (rule weightsKnown_Cons)
  show ?case
  proof (cases oc)
    case None
    with row Cons.IH[OF rest] show ?thesis by simp
  next
    case (Some c)
    with row Cons.prems
    have "calculateOwnershipFromRoot depth R (company_id c) rels = Some (weight (company_id c))"
      unfolding weightsKnown_def by simp
    with row Some Cons.IH[OF rest] show ?thesis
      by (simp del: calculateOwnershipFromRoot.simps)
  qed
qed

lemma weightedLeaseTotals_returns:
  "weightsKnown depth R rels weight rows \<Longrightarrow>
     \<exists>totals. weightedLeaseTotals depth R rels rows ls acc = Some totals"
proof (induction ls arbitrary: acc)
  case Nil
  then show ?case by simp
next
  case (Cons lrow ls)
  obtain l lp where lrow: "lrow = (l, lp)" by (cases lrow)
  obtain a b where acc: "acc = (a, b)" by (cases acc)
  show ?case
  proof (cases "find (\<lambda>(p, c). property_id p = propertyId l) rows")
    case None
    with lrow acc Cons.IH[OF Cons.prems] show ?thesis by simp
  next
    case (Some found)
    obtain p oc where found: "found = (p, oc)" by (cases found)
    show ?thesis
    proof (cases oc)
      case None
      with lrow acc Some found Cons.IH[OF Cons.prems] show ?thesis by simp
    next
      case c: (Some c)
      from Some found c obtain i where "i < length rows" "rows ! i = (p, Some c)"
        by (auto simp: find_Some_iff)
      then have "(p, Some c) \<in> set rows" by (metis nth_mem)
      with Cons.prems
      have "calculateOwnershipFromRoot depth R (company_id c) rels
              = Some (weight (company_id c))"
        unfolding weightsKnown_def by simp
      with lrow acc Some found c Cons.IH[OF Cons.prems] show ?thesis
        by (simp del: calculateOwnershipFromRoot.simps)
    qed
  qed
qed

lemma weightsKnown_sorted:
  "weightsKnown depth R rels weight rows \<Longrightarrow>
     weightsKnown depth R rels weight (sortedProperties rows)"
  unfolding weightsKnown_def sortedProperties_def by simp

lemma twoDecimals_0: "twoDecimals 0 = 0"
  by code_simp

lemma mathRound_0: "mathRound 0 = 0"
  unfolding mathRound_def by (simp add: floor_eq_iff)

lemma weightedStatsFor_result:
  assumes known: "weightsKnown depth R (allRelationsOf d org) weight (allPropertiesOf d org)"
  shows "\<exists>stats. weightedStatsFor depth d org uid R = Some stats
           \<and> count stats
               = twoDecimals (fst (foldl (rowStep weight) (0, 0) (allPropertiesOf d org)))
           \<and> totalValue stats
               = of_int (mathRound (snd (foldl (rowStep weight) (0, 0)
                                           (allPropertiesOf d org))))"
proof (cases "allPropertiesOf d org = []")
  case True
  then show ?thesis
    by (simp add: weightedStatsFor_def twoDecimals_0 mathRound_0)
next
  case False
  let ?rels = "allRelationsOf d org"
  let ?rows = "allPropertiesOf d org"
  obtain tc tv where pair: "foldl (rowStep weight) (0, 0) ?rows = (tc, tv)"
    by (metis surj_pair)
  have totals: "weightedTotals depth R ?rels ?rows (0, 0) = Some (tc, tv)"
    using weightedTotals_fold[OF known, of "(0, 0)"] pair by simp
  obtain latest where latest:
    "findLatest depth R ?rels (sortedProperties ?rows) = Some latest"
    using findLatest_returns[OF weightsKnown_sorted[OF known]] by blast
  obtain lc la where leases:
    "weightedLeaseTotals depth R ?rels (sortedProperties ?rows)
       (getLeases d org (Some uid)) (0, 0) = Some (lc, la)"
    using weightedLeaseTotals_returns[OF weightsKnown_sorted[OF known],
            of "getLeases d org (Some uid)" "(0, 0)"]
    by (metis surj_pair)
  from False totals latest leases pair show ?thesis
    by (simp add: weightedStatsFor_def twoDecimals_def Let_def)
qed

text \<open>Under the key constraints every property joins exactly one row, so the sums
  over the rows are the sums over the properties.\<close>

lemma rows_fold:
  assumes "referentialIntegrity d" "set ps \<subseteq> set (properties d)"
  shows "foldl (rowStep weight) (a, b) (concat (map (joinOwner d) ps)) =
           (foldl (\<lambda>acc p. case ownerCompanyId p of None \<Rightarrow> acc
                            | Some c \<Rightarrow> dadd acc (weight c)) a ps,
            foldl (\<lambda>acc p. case ownerCompanyId p of None \<Rightarrow> acc
                            | Some c \<Rightarrow> dadd acc (dmul (parseFloat (acquisitionPrice p))
                                                     (weight c))) b ps)"
  using assms(2)
proof (induction ps arbitrary: a b)
  case Nil
  then show ?case by simp
next
  case (Cons p ps)
  from Cons.prems have p: "p \<in> set (properties d)" and ps: "set ps \<subseteq> set (properties d)"
    by auto
  show ?case
  proof (cases "ownerCompanyId p")
    case None
    with Cons.IH[OF ps] show ?thesis by (simp add: joinOwner_None)
  next
    case (Some cid)
    from joinOwner_Some[OF assms(1) p Some]
    obtain c where "company_id c = cid" "joinOwner d p = [(p, Some c)]" by blast
    with Some Cons.IH[OF ps] show ?thesis by simp
  qed
qed

lemma rows_sums:
  assumes "referentialIntegrity d"
  shows "fst (foldl (rowStep weight) (0, 0) (allPropertiesOf d org))
           = weightedCountOf weight
               (filter (\<lambda>p. property_organizationId p = org) (properties d))"
    and "snd (foldl (rowStep weight) (0, 0) (allPropertiesOf d org))
           = weightedValueOf weight
               (filter (\<lambda>p. property_organizationId p = org) (properties d))"
  unfolding allPropertiesOf_def weightedCountOf_def weightedValueOf_def
  using rows_fold[OF assms, of "filter (\<lambda>p. property_organizationId p = org) (properties d)"
          weight 0 0]
  by simp_all

text \<open>The same holds for the statistics built from the weights.\<close>

lemma weightedTotals_depth_mono:
  "weightedTotals n R rels rows acc = Some x \<Longrightarrow> n \<le> m \<Longrightarrow>
     weightedTotals m R rels rows acc = Some x"
proof (induction n R rels rows acc rule: weightedTotals.induct)
  case (1 depth rootCompanyId allRelations acc)
  then show ?case by simp
next
  case (2 depth rootCompanyId allRelations property rest acc)
  then show ?case by simp
next
  case (3 depth rootCompanyId allRelations property ownerCompany rest cnt val)
  from "3.prems"(1) obtain w where
    w: "calculateOwnershipFromRoot depth rootCompanyId (company_id ownerCompany) allRelations
          = Some w"
    and r: "weightedTotals depth rootCompanyId allRelations rest
              (dadd cnt w, dadd val (dmul (parseFloat (acquisitionPrice property)) w)) = Some x"
    by (auto simp del: calculateOwnershipFromRoot.simps split: option.splits)
  from depth_mono(1)[OF w "3.prems"(2)] "3.IH"[OF w r "3.prems"(2)] show ?case
    by (simp del: calculateOwnershipFromRoot.simps)
qed

lemma findLatest_depth_mono:
  "findLatest n R rels rows = Some x \<Longrightarrow> n \<le> m \<Longrightarrow> findLatest m R rels rows = Some x"
proof (induction n R rels rows rule: findLatest.induct)
  case (1 depth rootCompanyId allRelations)
  then show ?case by simp
next
  case (2 depth rootCompanyId allRelations property rest)
  then show ?case by simp
next
  case (3 depth rootCompanyId allRelations property ownerCompany rest)
  from "3.prems"(1) obtain w where
    w: "calculateOwnershipFromRoot depth rootCompanyId (company_id ownerCompany) allRelations
          = Some w"
    by (auto simp del: calculateOwnershipFromRoot.simps split: option.splits)
  show ?case
  proof (cases "w > 0")
    case True
    with "3.prems"(1) w depth_mono(1)[OF w "3.prems"(2)] show ?thesis
      by (simp del: calculateOwnershipFromRoot.simps)
  next
    case False
    with "3.prems"(1) w have "findLatest depth rootCompanyId allRelations rest = Some x"
      by (simp del: calculateOwnershipFromRoot.simps)
    from "3.IH"[OF w False this "3.prems"(2)] False depth_mono(1)[OF w "3.prems"(2)]
    show ?thesis by (simp del: calculateOwnershipFromRoot.simps)
  qed
qed

lemma weightedLeaseTotals_depth_mono:
  "weightedLeaseTotals n R rels rows ls acc = Some x \<Longrightarrow> n \<le> m \<Longrightarrow>
     weightedLeaseTotals m R rels rows ls acc = Some x"
proof (induction ls arbitrary: acc)
  case Nil
  then show ?case by simp
next
  case (Cons lrow ls)
  obtain l lp where lrow: "lrow = (l, lp)" by (cases lrow)
  obtain a b where acc: "acc = (a, b)" by (cases acc)
  show ?case
  proof (cases "find (\<lambda>(p, c). property_id p = propertyId l) rows")
    case None
    with lrow acc Cons.prems Cons.IH show ?thesis by simp
  next
    case (Some found)
    obtain p oc where found: "found = (p, oc)" by (cases found)
    show ?thesis
    proof (cases oc)
      case None
      with lrow acc Some found Cons.prems Cons.IH show ?thesis by simp
    next
      case c: (Some c)
      from Cons.prems(1) lrow acc Some found c obtain w where
        w: "calculateOwnershipFromRoot n R (company_id c) rels = Some w"
        by (auto simp del: calculateOwnershipFromRoot.simps split: option.splits)
      from Cons.prems(1) lrow acc Some found c w
      have "weightedLeaseTotals n R rels rows ls
              (if w > 0 then (dadd a w, dadd b (dmul (of_int (totalArea l)) w)) else (a, b)) = Some x"
        by (simp del: calculateOwnershipFromRoot.simps split: if_splits)
      from Cons.IH[OF this Cons.prems(2)] lrow acc Some found c
        depth_mono(1)[OF w Cons.prems(2)]
      show ?thesis by (simp del: calculateOwnershipFromRoot.simps split: if_splits)
    qed
  qed
qed

lemma calculateWeightedStats_depth_mono:
  assumes "calculateWeightedStats n d org uid = Some stats" "n \<le> m"
  shows "calculateWeightedStats m d org uid = Some stats"
proof -
  have "weightedStatsFor m d org uid R = Some s"
    if "weightedStatsFor n d org uid R = Some s" for R s
  proof (cases "allPropertiesOf d org = []")
    case True
    with that show ?thesis by (simp add: weightedStatsFor_def)
  next
    case False
    let ?rels = "allRelationsOf d org"
    let ?rows = "allPropertiesOf d org"
    from that False obtain tc tv latest lc la where
      t: "weightedTotals n R ?rels ?rows (0, 0) = Some (tc, tv)"
      and f: "findLatest n R ?rels (sortedProperties ?rows) = Some latest"
      and l: "weightedLeaseTotals n R ?rels (sortedProperties ?rows)
                (getLeases d org (Some uid)) (0, 0) = Some (lc, la)"
      and s: "s = \<lparr>count = ddiv (of_int (mathRound (dmul tc 100))) 100,
                    totalValue = of_int (mathRound tv),
                    latestProperty = latest,
                    leaseStats = \<lparr>leaseCount = ddiv (of_int (mathRound (dmul lc 100))) 100,
                                   totalRentCapacity = of_int (mathRound la)\<rparr>\<rparr>"
      by (auto simp: weightedStatsFor_def Let_def split: option.splits prod.splits)
    from False s weightedTotals_depth_mono[OF t assms(2)] findLatest_depth_mono[OF f assms(2)]
      weightedLeaseTotals_depth_mono[OF l assms(2)]
    show ?thesis by (simp add: weightedStatsFor_def Let_def)
  qed
  with assms(1) show ?thesis
    by (auto simp: calculateWeightedStats_def split: option.splits if_splits)
qed

lemma dashboardStats_depth_mono:
  assumes "dashboardStats n d session = Json stats" "n \<le> m"
  shows "dashboardStats m d session = Json stats"
proof -
  have "calculateWeightedStats m d org uid = Some s"
    if "calculateWeightedStats n d org uid = Some s" for org uid s
    using that assms(2) by (rule calculateWeightedStats_depth_mono)
  with assms(1) show ?thesis
    by (auto simp: dashboardStats_def split: option.splits if_splits)
qed

subsection \<open>Algorithm B returns on relations without a cycle\<close>

text \<open>
  When the relations of the organization contain no cycle, the converse of the ownership
  graph is well-founded, and by induction along it every weight is returned within some
  stack depth: the loop over the direct relations returns once the weights from all the
  children are returned, and finitely many depths have a maximum.
\<close>

lemma directLoop_returns:
  "(\<And>x. x \<in> set xs \<Longrightarrow> childCompanyId (company_relations x) \<noteq> t \<Longrightarrow>
         \<exists>w. calculateOwnershipFromRoot n (childCompanyId (company_relations x)) t rels = Some w)
   \<Longrightarrow> \<exists>w. directLoop (Suc n) t rels xs acc = Some w"
proof (induction xs arbitrary: acc)
  case Nil
  then show ?case by simp
next
  case (Cons x xs)
  have rest: "\<exists>w. directLoop (Suc n) t rels xs a = Some w" for a
  proof (rule Cons.IH)
    fix y
    assume "y \<in> set xs" "childCompanyId (company_relations y) \<noteq> t"
    then show "\<exists>w. calculateOwnershipFromRoot n (childCompanyId (company_relations y)) t rels
                     = Some w"
      using Cons.prems[of y] by (simp del: calculateOwnershipFromRoot.simps)
  qed
  show ?case
  proof (cases "childCompanyId (company_relations x) = t")
    case True
    with rest show ?thesis by (simp del: calculateOwnershipFromRoot.simps)
  next
    case False
    with Cons.prems[of x] obtain w where
      "calculateOwnershipFromRoot n (childCompanyId (company_relations x)) t rels = Some w"
      by (auto simp del: calculateOwnershipFromRoot.simps)
    with False rest show ?thesis by (simp del: calculateOwnershipFromRoot.simps)
  qed
qed

lemma uniform_depth:
  "(\<And>x. x \<in> set xs \<Longrightarrow> \<exists>n w. calculateOwnershipFromRoot n (f x) (g x) rels = Some w)
   \<Longrightarrow> \<exists>n. \<forall>x \<in> set xs. \<exists>w. calculateOwnershipFromRoot n (f x) (g x) rels = Some w"
proof (induction xs)
  case Nil
  then show ?case by simp
next
  case (Cons x xs)
  from Cons.prems[of x] obtain n1 w1 where
    1: "calculateOwnershipFromRoot n1 (f x) (g x) rels = Some w1" by auto
  from Cons.IH Cons.prems obtain n2 where
    2: "\<forall>y \<in> set xs. \<exists>w. calculateOwnershipFromRoot n2 (f y) (g y) rels = Some w"
    by (metis list.set_intros(2))
  have "\<exists>w. calculateOwnershipFromRoot (max n1 n2) (f y) (g y) rels = Some w"
    if "y \<in> set (x # xs)" for y
  proof (cases "y = x")
    case True
    with depth_mono(1)[OF 1, of "max n1 n2"] show ?thesis by simp
  next
    case False
    with that 2 obtain w where "calculateOwnershipFromRoot n2 (f y) (g y) rels = Some w"
      by auto
    from depth_mono(1)[OF this, of "max n1 n2"] show ?thesis by simp
  qed
  then show ?case by blast
qed

lemma calculateOwnershipFromRoot_returns:
  assumes "acyclic (edgesOf (map company_relations rels))"
  shows "\<exists>n w. calculateOwnershipFromRoot n r t rels = Some w"
proof -
  let ?E = "edgesOf (map company_relations rels)"
  have "finite ?E" by (simp add: edgesOf_def)
  then have wf: "wf (?E\<inverse>)" using assms by (rule finite_acyclic_wf_converse)
  show ?thesis
  proof (induction r rule: wf_induct_rule[OF wf])
    case (1 r)
    show ?case
    proof (cases "r = t")
      case True
      then show ?thesis by simp
    next
      case False
      let ?direct = "filter (\<lambda>x. parentCompanyId (company_relations x) = r) rels"
      have "\<exists>n w. calculateOwnershipFromRoot n (childCompanyId (company_relations x)) t rels
                     = Some w"
        if "x \<in> set ?direct" for x
      proof -
        from that have "(r, childCompanyId (company_relations x)) \<in> ?E"
          by (auto simp: edgesOf_def)
        then show ?thesis using "1.IH" by blast
      qed
      from uniform_depth[of ?direct "\<lambda>x. childCompanyId (company_relations x)" "\<lambda>x. t" rels,
             OF this]
      obtain n where "\<forall>x \<in> set ?direct.
          \<exists>w. calculateOwnershipFromRoot n (childCompanyId (company_relations x)) t rels = Some w"
        by blast
      then have "\<exists>w. directLoop (Suc n) t rels ?direct 0 = Some w"
        by (intro directLoop_returns) blast
      with False show ?thesis
        by (metis calculateOwnershipFromRoot.simps)
    qed
  qed
qed

lemma weights_returned:
  assumes "acyclic (edgesOf (map company_relations rels))"
  shows "\<exists>n weight. \<forall>m \<ge> n. weightsKnown m R rels weight rows"
proof -
  let ?target = "\<lambda>row :: propertyRow. case snd row of None \<Rightarrow> R | Some c \<Rightarrow> company_id c"
  from uniform_depth[of rows "\<lambda>row. R" ?target rels]
    calculateOwnershipFromRoot_returns[OF assms]
  obtain n where n: "\<forall>row \<in> set rows.
      \<exists>w. calculateOwnershipFromRoot n R (?target row) rels = Some w"
    by blast
  define weight where
    "weight c = (case calculateOwnershipFromRoot n R c rels of None \<Rightarrow> 0 | Some w \<Rightarrow> w)" for c
  have "weightsKnown m R rels weight rows" if "n \<le> m" for m
    unfolding weightsKnown_def
  proof (intro allI impI)
    fix p c
    assume "(p, Some c) \<in> set rows"
    with n obtain w where w: "calculateOwnershipFromRoot n R (company_id c) rels = Some w"
      by force
    then have "weight (company_id c) = w" by (simp add: weight_def)
    with depth_mono(1)[OF w that]
    show "calculateOwnershipFromRoot m R (company_id c) rels = Some (weight (company_id c))"
      by simp
  qed
  then show ?thesis by blast
qed

text \<open>
  C6, as amended. Let the caller be a user with an assigned root company \<open>R\<close>, in a
  database that satisfies the key constraints of the schema and whose ownership
  relations, within the organization, contain no cycle. Then there is a stack depth from
  which on \<open>calculateOwnershipFromRoot\<close> returns the weight from \<open>R\<close> to the owning
  company of every property of the organization, \<open>weight\<close> of that company, and
  \<open>calculateWeightedStats\<close> returns: it reports as \<open>count\<close> the sum of the weights
  rounded to two decimal places, and as \<open>totalValue\<close> the sum of price times weight
  rounded to a whole number. The sums are those of JavaScript numbers, taken over the
  properties in table order; a property without owning company adds nothing to either.
\<close>

theorem calculateWeightedStats_aggregates:
  assumes "getUser d uid = Some u" and "assignedCompanyId u = Some R" and "R \<noteq> []"
    and "referentialIntegrity d"
    and "acyclic (edgesOf (map company_relations (allRelationsOf d org)))"
  shows "\<exists>n weight. \<forall>depth \<ge> n.
           (\<forall>p \<in> set (properties d). property_organizationId p = org \<longrightarrow>
              (\<forall>c. ownerCompanyId p = Some c \<longrightarrow>
                 calculateOwnershipFromRoot depth R c (allRelationsOf d org) = Some (weight c)))
           \<and> (\<exists>stats. calculateWeightedStats depth d org uid = Some stats
                 \<and> count stats
                     = twoDecimals (weightedCountOf weight
                         (filter (\<lambda>p. property_organizationId p = org) (properties d)))
                 \<and> totalValue stats
                     = of_int (mathRound (weightedValueOf weight
                         (filter (\<lambda>p. property_organizationId p = org) (properties d)))))"
proof -
  let ?rels = "allRelationsOf d org"
  from weights_returned[OF assms(5), of R "allPropertiesOf d org"]
  obtain n weight where
    known: "\<And>m. n \<le> m \<Longrightarrow> weightsKnown m R ?rels weight (allPropertiesOf d org)"
    by blast
  have "(\<forall>p \<in> set (properties d). property_organizationId p = org \<longrightarrow>
              (\<forall>c. ownerCompanyId p = Some c \<longrightarrow>
                 calculateOwnershipFromRoot depth R c ?rels = Some (weight c)))
           \<and> (\<exists>stats. calculateWeightedStats depth d org uid = Some stats
                 \<and> count stats
                     = twoDecimals (weightedCountOf weight
                         (filter (\<lambda>p. property_organizationId p = org) (properties d)))
                 \<and> totalValue stats
                     = of_int (mathRound (weightedValueOf weight
                         (filter (\<lambda>p. property_organizationId p = org) (properties d)))))"
    if depth: "n \<le> depth" for depth
  proof (intro conjI ballI impI allI)
    fix p c
    assume "p \<in> set (properties d)" "property_organizationId p = org" "ownerCompanyId p = Some c"
    from allPropertiesOf_owner[OF assms(4) this]
    obtain oc where "company_id oc = c" "(p, Some oc) \<in> set (allPropertiesOf d org)" by blast
    with known[OF depth]
    show "calculateOwnershipFromRoot depth R c ?rels = Some (weight c)"
      unfolding weightsKnown_def by blast
  next
    from weightedStatsFor_result[OF known[OF depth], of uid]
    have "\<exists>stats. weightedStatsFor depth d org uid R = Some stats
           \<and> count stats
               = twoDecimals (weightedCountOf weight
                   (filter (\<lambda>p. property_organizationId p = org) (properties d)))
           \<and> totalValue stats
               = of_int (mathRound (weightedValueOf weight
                   (filter (\<lambda>p. property_organizationId p = org) (properties d))))"
      unfolding rows_sums[OF assms(4)] .
    moreover have "calculateWeightedStats depth d org uid = weightedStatsFor depth d org uid R"
      using assms(1-3) by (simp add: calculateWeightedStats_def)
    ultimately show "\<exists>stats. calculateWeightedStats depth d org uid = Some stats
                 \<and> count stats
                     = twoDecimals (weightedCountOf weight
                         (filter (\<lambda>p. property_organizationId p = org) (properties d)))
                 \<and> totalValue stats
                     = of_int (mathRound (weightedValueOf weight
                         (filter (\<lambda>p. property_organizationId p = org) (properties d))))"
      by simp
  qed
  then show ?thesis by blast
qed

lemma chain_integrity: "referentialIntegrity chainDb"
  by (simp add: referentialIntegrity_def chainDb_def org1Companies_def propertyP_def
        propertyQ_def)

lemma chain_acyclic: "acyclic (edgesOf (map company_relations (allRelationsOf chainDb ''org1'')))"
proof -
  let ?rank = "\<lambda>c. if c = ''A'' then 0 else if c = ''B'' then 1 else (2::nat)"
  have "edgesOf (map company_relations (allRelationsOf chainDb ''org1'')) \<subseteq> measure ?rank"
    unfolding chain_relations by (simp add: edgesOf_def company_relations_def)
  moreover have "acyclic (measure ?rank)"
    by (simp add: wf_acyclic)
  ultimately show ?thesis by (rule acyclic_subset[rotated])
qed

text \<open>The figures of scenario 3 of the specification, in doubles.\<close>

lemma chain_figures:
  "twoDecimals (dadd 0 (double (3 / 10))) = double (3 / 10)"
  "mathRound (dadd 0 (dmul (parseFloat 1000000) (double (3 / 10)))) = 300000"
  by code_simp+

text \<open>Scenario 3 of the specification: the relations of \<open>chainDb\<close> have no cycle, the
  weight from A to C is the double \<open>0.3\<close>, and property P counts 0.3 and is worth 300,000
  to user u1, at every stack depth from some depth on.\<close>

theorem calculateWeightedStats_aggregates_witness:
  "getUser chainDb ''u1'' = Some chainUser \<and> assignedCompanyId chainUser = Some ''A''
   \<and> acyclic (edgesOf (map company_relations (allRelationsOf chainDb ''org1'')))
   \<and> (\<exists>n. \<forall>depth \<ge> n.
         calculateOwnershipFromRoot depth ''A'' ''C'' (allRelationsOf chainDb ''org1'')
           = Some (double (3 / 10))
         \<and> (\<exists>stats. calculateWeightedStats depth chainDb ''org1'' ''u1'' = Some stats
               \<and> count stats = double (3 / 10) \<and> totalValue stats = 300000))"
proof -
  let ?rels = "allRelationsOf chainDb ''org1''"
  let ?ps = "filter (\<lambda>p. property_organizationId p = ''org1'') (properties chainDb)"
  have u: "getUser chainDb ''u1'' = Some chainUser" "assignedCompanyId chainUser = Some ''A''"
      "''A'' \<noteq> []"
    by (simp_all add: getUser_def chainDb_def chainUser_def)
  from calculateWeightedStats_aggregates[OF u chain_integrity chain_acyclic]
  obtain n weight where
    w: "\<And>depth p c. n \<le> depth \<Longrightarrow> p \<in> set (properties chainDb) \<Longrightarrow>
           property_organizationId p = ''org1'' \<Longrightarrow> ownerCompanyId p = Some c \<Longrightarrow>
           calculateOwnershipFromRoot depth ''A'' c ?rels = Some (weight c)"
    and s: "\<And>depth. n \<le> depth \<Longrightarrow>
           \<exists>stats. calculateWeightedStats depth chainDb ''org1'' ''u1'' = Some stats
             \<and> count stats = twoDecimals (weightedCountOf weight ?ps)
             \<and> totalValue stats = of_int (mathRound (weightedValueOf weight ?ps))"
    by blast
  have one: "calculateOwnershipFromRoot 1 ''A'' ''C'' ?rels = Some (double (3 / 10))"
    unfolding chain_relations
    by (simp add: company_relations_def scenario_arithmetic)
  have ps: "?ps = [propertyP, propertyQ]"
    by (simp add: chainDb_def propertyP_def propertyQ_def)
  have "calculateOwnershipFromRoot depth ''A'' ''C'' ?rels = Some (double (3 / 10))
         \<and> (\<exists>stats. calculateWeightedStats depth chainDb ''org1'' ''u1'' = Some stats
               \<and> count stats = double (3 / 10) \<and> totalValue stats = 300000)"
    if depth: "max n 1 \<le> depth" for depth
  proof -
    from depth have d: "n \<le> depth" "1 \<le> depth" by simp_all
    have c: "calculateOwnershipFromRoot depth ''A'' ''C'' ?rels = Some (double (3 / 10))"
      using one d(2) by (rule depth_mono(1))
    moreover have "calculateOwnershipFromRoot depth ''A'' ''C'' ?rels = Some (weight ''C'')"
      by (rule w[OF d(1), of propertyP]) (simp_all add: chainDb_def propertyP_def)
    ultimately have wc: "weight ''C'' = double (3 / 10)" by simp
    have cnt: "twoDecimals (weightedCountOf weight ?ps) = double (3 / 10)"
      unfolding ps
      by (simp add: weightedCountOf_def propertyP_def propertyQ_def wc chain_figures)
    have val: "of_int (mathRound (weightedValueOf weight ?ps)) = (300000::rat)"
      unfolding ps
      by (simp add: weightedValueOf_def propertyP_def propertyQ_def wc chain_figures)
    from s[OF d(1)] c show ?thesis unfolding cnt val by simp
  qed
  with u chain_acyclic show ?thesis by blast
qed

text \<open>
  C6 as stated fails on the total value. In \<open>centDb\<close> user u1 owns all of property H,
  acquired for 100.50: the sum of price times weight is 100.50 and has two decimal
  places already, and \<open>calculateWeightedStats\<close> reports 101.
\<close>

theorem calculateWeightedStats_value_counterexample:
  "calculateWeightedStats 0 centDb ''org1'' ''u1'' =
     Some \<lparr>count = 1, totalValue = 101, latestProperty = Some propertyH,
            leaseStats = \<lparr>leaseCount = 0, totalRentCapacity = 0\<rparr>\<rparr>
   \<and> calculateOwnershipFromRoot 0 ''A'' ''A'' (allRelationsOf centDb ''org1'') = Some 1
   \<and> twoDecimals (weightedValueOf (\<lambda>c. 1) (properties centDb)) = 201 / 2"
proof (intro conjI)
  show "calculateWeightedStats 0 centDb ''org1'' ''u1'' =
     Some \<lparr>count = 1, totalValue = 101, latestProperty = Some propertyH,
            leaseStats = \<lparr>leaseCount = 0, totalRentCapacity = 0\<rparr>\<rparr>"
    by code_simp
next
  show "calculateOwnershipFromRoot 0 ''A'' ''A'' (allRelationsOf centDb ''org1'') = Some 1"
    by simp
next
  show "twoDecimals (weightedValueOf (\<lambda>c. 1) (properties centDb)) = 201 / 2"
    by code_simp
qed

text \<open>
  The sums are sums of doubles. In \<open>fractionDb\<close> the weight from A to B is the double
  nearest to 0.145, which lies below it: times 100 it gives 14.499999999999998, for the
  count and for the value alike, so the count is reported as 0.14 and the value as 14,
  where the decimal numbers would give 0.15 and 15.
\<close>

lemma fraction_stats:
  "calculateWeightedStats 0 fractionDb ''org1'' ''u1'' =
     Some \<lparr>count = double (14 / 100), totalValue = 14, latestProperty = Some propertyF,
            leaseStats = \<lparr>leaseCount = 0, totalRentCapacity = 0\<rparr>\<rparr>"
  "calculateOwnershipFromRoot 0 ''A'' ''B'' (allRelationsOf fractionDb ''org1'')
     = Some (double (145 / 1000))"
  "double (145 / 1000) < 145 / 1000"
  "dmul (double (145 / 1000)) 100 = 8162774324609023 / 562949953421312"
  by code_simp+

text \<open>Nor does \<open>calculateWeightedStats\<close> return when the relations contain a cycle: in
  \<open>loopDb\<close> the weight from A to C of property P exhausts every stack depth, and the
  statistics route answers with status 500.\<close>

lemma loop_stats_fail:
  "calculateWeightedStats depth loopDb ''org1'' ''u1'' = None"
proof -
  have user: "getUser loopDb ''u1'' = Some chainUser"
    by code_simp
  have rows: "allPropertiesOf loopDb ''org1''
                = [(propertyP, Some \<lparr>company_id = ''C'', company_organizationId = ''org1''\<rparr>)]"
    by code_simp
  have rels: "allRelationsOf loopDb ''org1'' = allRelationsOf cycleDb ''org1''"
    by code_simp
  have "calculateOwnershipFromRoot depth ''A'' ''C'' (allRelationsOf cycleDb ''org1'') = None"
    using cycle_runs_out[of depth] by simp
  then show ?thesis
    by (simp add: calculateWeightedStats_def weightedStatsFor_def user rows rels chainUser_def
          del: calculateOwnershipFromRoot.simps)
qed

lemma loop_dashboard_fails: "dashboardStats depth loopDb (Some ''u1'') = Status 500"
proof -
  have "getUser loopDb ''u1'' = Some chainUser" by code_simp
  then show ?thesis
    using loop_stats_fail[of depth]
    by (simp add: dashboardStats_def requireAuth_def getCurrentUser_def chainUser_def)
qed

section \<open>Lease tenancies\<close>

lemma overlapCheck_iff:
  "overlapCheck newStart newEnd existingTenants =
     (if \<exists>e \<in> set existingTenants.
           newStart \<le> orElse (periodEnd e) date2099 \<and> orElse newEnd date2099 \<ge> periodStart e
      then Some PeriodOverlap else None)"
  by (induction existingTenants) (auto simp: Let_def)

lemma createLeaseTenant_overlapping:
  assumes "existing \<in> set (leaseTenants d)" "leaseId existing = leaseId candidate"
    "overlaps candidate existing"
  shows "createLeaseTenant today newId d candidate = Inl PeriodOverlap"
proof -
  have "overlapCheck (periodStart candidate) (periodEnd candidate)
          (filter (\<lambda>e. leaseId e = leaseId candidate) (leaseTenants d)) = Some PeriodOverlap"
    unfolding overlapCheck_iff using assms by (auto simp: overlaps_def)
  then show ?thesis by (simp add: createLeaseTenant_def)
qed

lemma createLeaseTenant_accepted:
  assumes "createLeaseTenant today newId d candidate = Inr res"
    "existing \<in> set (leaseTenants d)" "leaseId existing = leaseId candidate"
  shows "\<not> overlaps candidate existing"
  using assms createLeaseTenant_overlapping[of existing d candidate today newId] by auto

text \<open>
  C4, as amended. If the candidate overlaps an existing tenancy of the same lease,
  \<open>createLeaseTenant\<close> throws the overlap error; an error carries no new database, so
  nothing is inserted. If a tenancy of the lease is open-ended and the candidate is
  accepted, then the candidate, its own missing end read as 2099-12-31, ends before the
  open-ended tenancy starts, or the candidate starts after 2099-12-31.
\<close>

theorem createLeaseTenant_overlap_rejected:
  "(existing \<in> set (leaseTenants d) \<and> leaseId existing = leaseId candidate
      \<and> overlaps candidate existing
    \<longrightarrow> createLeaseTenant today newId d candidate = Inl PeriodOverlap)
   \<and> (existing \<in> set (leaseTenants d) \<and> leaseId existing = leaseId candidate
        \<and> periodEnd existing = None
        \<and> createLeaseTenant today newId d candidate = Inr (created, d')
      \<longrightarrow> orElse (periodEnd candidate) date2099 < periodStart existing
          \<or> periodStart candidate > date2099)"
proof (intro conjI impI)
  assume "existing \<in> set (leaseTenants d) \<and> leaseId existing = leaseId candidate
      \<and> overlaps candidate existing"
  then show "createLeaseTenant today newId d candidate = Inl PeriodOverlap"
    using createLeaseTenant_overlapping by blast
next
  assume h: "existing \<in> set (leaseTenants d) \<and> leaseId existing = leaseId candidate
        \<and> periodEnd existing = None
        \<and> createLeaseTenant today newId d candidate = Inr (created, d')"
  then have "\<not> overlaps candidate existing"
    using createLeaseTenant_accepted by blast
  with h show "orElse (periodEnd candidate) date2099 < periodStart existing
          \<or> periodStart candidate > date2099"
    by (auto simp: overlaps_def)
qed

text \<open>The overlap test of the specification: 2024-01-01 to 2024-06-30 is refused on a
  lease let from 2024-03-01 to 2024-09-30. On the lease with the open-ended tenancy from
  2023-01-01, the year 2022 is accepted and ends before that tenancy starts.\<close>

theorem createLeaseTenant_overlap_rejected_witness:
  "fixedTenancy \<in> set (leaseTenants fixedDb) \<and> leaseId fixedTenancy = leaseId springTenancy
   \<and> overlaps springTenancy fixedTenancy
   \<and> createLeaseTenant june2024 ''t9'' fixedDb springTenancy = Inl PeriodOverlap
   \<and> openTenancy \<in> set (leaseTenants openDb) \<and> periodEnd openTenancy = None
   \<and> createLeaseTenant june2024 ''t9'' openDb earlierTenancy
       = Inr (earlierTenancy\<lparr>leaseTenant_id := ''t9''\<rparr>,
              openDb\<lparr>leaseTenants := [openTenancy, earlierTenancy\<lparr>leaseTenant_id := ''t9''\<rparr>]\<rparr>)
   \<and> orElse (periodEnd earlierTenancy) date2099 < periodStart openTenancy"
proof -
  have a: "fixedTenancy \<in> set (leaseTenants fixedDb) \<and> leaseId fixedTenancy = leaseId springTenancy
      \<and> overlaps springTenancy fixedTenancy"
    by (simp add: fixedDb_def fixedTenancy_def springTenancy_def overlaps_def)
  have r: "createLeaseTenant june2024 ''t9'' openDb earlierTenancy
       = Inr (earlierTenancy\<lparr>leaseTenant_id := ''t9''\<rparr>,
              openDb\<lparr>leaseTenants := [openTenancy, earlierTenancy\<lparr>leaseTenant_id := ''t9''\<rparr>]\<rparr>)"
    by (simp add: createLeaseTenant_def openDb_def openTenancy_def earlierTenancy_def
          date2099_def containsToday_def june2024_def Let_def)
  have b: "openTenancy \<in> set (leaseTenants openDb) \<and> leaseId openTenancy = leaseId earlierTenancy
        \<and> periodEnd openTenancy = None"
    by (simp add: openDb_def openTenancy_def earlierTenancy_def)
  have c: "\<not> periodStart earlierTenancy > date2099"
    by (simp add: earlierTenancy_def date2099_def)
  from createLeaseTenant_overlap_rejected[of fixedTenancy fixedDb springTenancy june2024 "''t9''"] a
  have 1: "createLeaseTenant june2024 ''t9'' fixedDb springTenancy = Inl PeriodOverlap"
    by blast
  from createLeaseTenant_overlap_rejected[of openTenancy openDb earlierTenancy june2024 "''t9''"
      "earlierTenancy\<lparr>leaseTenant_id := ''t9''\<rparr>"
      "openDb\<lparr>leaseTenants := [openTenancy, earlierTenancy\<lparr>leaseTenant_id := ''t9''\<rparr>]\<rparr>"] b r c
  have 2: "orElse (periodEnd earlierTenancy) date2099 < periodStart openTenancy"
    by blast
  from a b r 1 2 show ?thesis by blast
qed

text \<open>
  C4 as stated fails on its consequence. The lease has the open-ended tenancy from
  2023-01-01, and a second tenancy from 2100-01-01 to 2100-06-30 is accepted and
  inserted, although it lies after the start of the first, not before it.
\<close>

theorem createLeaseTenant_open_ended_counterexample:
  "periodEnd openTenancy = None \<and> leaseId openTenancy = leaseId lateTenancy
   \<and> createLeaseTenant june2024 ''t9'' openDb lateTenancy
       = Inr (lateTenancy\<lparr>leaseTenant_id := ''t9''\<rparr>,
              openDb\<lparr>leaseTenants := [openTenancy, lateTenancy\<lparr>leaseTenant_id := ''t9''\<rparr>]\<rparr>)
   \<and> periodStart openTenancy < periodStart lateTenancy
   \<and> \<not> (orElse (periodEnd lateTenancy) date2099 < periodStart openTenancy)"
  by (simp add: createLeaseTenant_def openDb_def openTenancy_def lateTenancy_def
        date2099_def containsToday_def june2024_def Let_def)

text \<open>
  C5, as amended. If the candidate's period contains today and so does the period of an
  existing tenancy of the same lease, \<open>createLeaseTenant\<close> throws; while today is not
  after 2099-12-31 the error is the overlap error, because the overlap check runs
  first; and the error is the active-tenant error exactly when no tenancy of the lease
  overlaps the candidate.
\<close>

theorem createLeaseTenant_active_rejected:
  "containsToday today (periodStart candidate) (periodEnd candidate)
     \<and> existing \<in> set (leaseTenants d) \<and> leaseId existing = leaseId candidate
     \<and> containsToday today (periodStart existing) (periodEnd existing)
   \<longrightarrow> (\<exists>err. createLeaseTenant today newId d candidate = Inl err)
       \<and> (today \<le> date2099 \<longrightarrow> createLeaseTenant today newId d candidate = Inl PeriodOverlap)
       \<and> (createLeaseTenant today newId d candidate = Inl ActiveTenantExists
            \<longleftrightarrow> \<not> (\<exists>e \<in> set (leaseTenants d).
                      leaseId e = leaseId candidate \<and> overlaps candidate e))"
proof (intro impI)
  assume h: "containsToday today (periodStart candidate) (periodEnd candidate)
     \<and> existing \<in> set (leaseTenants d) \<and> leaseId existing = leaseId candidate
     \<and> containsToday today (periodStart existing) (periodEnd existing)"
  let ?existingTenants = "filter (\<lambda>e. leaseId e = leaseId candidate) (leaseTenants d)"
  let ?check = "overlapCheck (periodStart candidate) (periodEnd candidate) ?existingTenants"
  have active: "filter (\<lambda>tenant. containsToday today (periodStart tenant) (periodEnd tenant))
                  ?existingTenants \<noteq> []"
    using h by (auto simp: filter_empty_conv)
  have check: "?check = (if \<exists>e \<in> set (leaseTenants d).
                              leaseId e = leaseId candidate \<and> overlaps candidate e
                         then Some PeriodOverlap else None)"
    unfolding overlapCheck_iff by (auto simp: overlaps_def)
  have result: "createLeaseTenant today newId d candidate =
                  (case ?check of Some err \<Rightarrow> Inl err | None \<Rightarrow> Inl ActiveTenantExists)"
    using h active by (simp add: createLeaseTenant_def split: option.splits)
  have early: "overlaps candidate existing" if "today \<le> date2099"
    using h that
    by (cases "periodEnd candidate"; cases "periodEnd existing")
       (auto simp: overlaps_def containsToday_def)
  show "(\<exists>err. createLeaseTenant today newId d candidate = Inl err)
       \<and> (today \<le> date2099 \<longrightarrow> createLeaseTenant today newId d candidate = Inl PeriodOverlap)
       \<and> (createLeaseTenant today newId d candidate = Inl ActiveTenantExists
            \<longleftrightarrow> \<not> (\<exists>e \<in> set (leaseTenants d).
                      leaseId e = leaseId candidate \<and> overlaps candidate e))"
  proof (intro conjI impI)
    show "\<exists>err. createLeaseTenant today newId d candidate = Inl err"
      unfolding result by (cases ?check) simp_all
  next
    assume "today \<le> date2099"
    from early[OF this] h show "createLeaseTenant today newId d candidate = Inl PeriodOverlap"
      using createLeaseTenant_overlapping by blast
  next
    show "createLeaseTenant today newId d candidate = Inl ActiveTenantExists
            \<longleftrightarrow> \<not> (\<exists>e \<in> set (leaseTenants d).
                      leaseId e = leaseId candidate \<and> overlaps candidate e)"
      unfolding result check by simp
  qed
qed

text \<open>On 2024-06-01 the open-ended tenancy from 2023-01-01 and the candidate from
  2024-01-01 are both current, and the candidate is refused with the overlap error.\<close>

theorem createLeaseTenant_active_rejected_witness:
  "containsToday june2024 (periodStart secondOpenTenancy) (periodEnd secondOpenTenancy)
   \<and> openTenancy \<in> set (leaseTenants openDb) \<and> leaseId openTenancy = leaseId secondOpenTenancy
   \<and> containsToday june2024 (periodStart openTenancy) (periodEnd openTenancy)
   \<and> june2024 \<le> date2099
   \<and> createLeaseTenant june2024 ''t9'' openDb secondOpenTenancy = Inl PeriodOverlap"
proof -
  have h: "containsToday june2024 (periodStart secondOpenTenancy) (periodEnd secondOpenTenancy)
     \<and> openTenancy \<in> set (leaseTenants openDb) \<and> leaseId openTenancy = leaseId secondOpenTenancy
     \<and> containsToday june2024 (periodStart openTenancy) (periodEnd openTenancy)"
    by (simp add: containsToday_def june2024_def secondOpenTenancy_def openTenancy_def
          openDb_def)
  have t: "june2024 \<le> date2099" by (simp add: june2024_def date2099_def)
  from createLeaseTenant_active_rejected[of june2024 secondOpenTenancy openTenancy openDb "''t9''"]
    h t
  show ?thesis by blast
qed

text \<open>
  C5 as stated fails on the error. In the same situation the error thrown is the
  overlap error, not the active-tenant error.
\<close>

theorem createLeaseTenant_active_message_counterexample:
  "containsToday june2024 (periodStart secondOpenTenancy) (periodEnd secondOpenTenancy)
   \<and> openTenancy \<in> set (leaseTenants openDb) \<and> leaseId openTenancy = leaseId secondOpenTenancy
   \<and> containsToday june2024 (periodStart openTenancy) (periodEnd openTenancy)
   \<and> createLeaseTenant june2024 ''t9'' openDb secondOpenTenancy \<noteq> Inl ActiveTenantExists"
  by (simp add: createLeaseTenant_def openDb_def openTenancy_def secondOpenTenancy_def
        date2099_def containsToday_def june2024_def Let_def)

section \<open>Company relations\<close>

lemma createCompanyRelation_total:
  "incomingTotal (snd (createCompanyRelation d newId parent child pct)) c =
     incomingTotal d c + (if child = c then pct else 0)"
  by (simp add: createCompanyRelation_def incomingTotal_def getParentRelations_def Let_def)

text \<open>The creation route keeps the bound: it computes the would-be total of the child and
  refuses when it exceeds 100.\<close>

lemma postCompanyRelation_keeps_bound:
  assumes "incomingTotal d c \<le> 100"
  shows "incomingTotal (snd (postCompanyRelation d session newId parent child pct)) c \<le> 100"
proof (cases "\<exists>rel d'. postCompanyRelation d session newId parent child pct = (Json rel, d')")
  case False
  then have "snd (postCompanyRelation d session newId parent child pct) = d"
    by (auto simp: postCompanyRelation_def Let_def
          split: option.splits if_splits prod.splits)
  with assms show ?thesis by simp
next
  case True
  then obtain p ch x where args: "parent = Some p" "child = Some ch" "pct = Some x"
    and ok: "\<not> incomingTotal d ch + x > 100"
    and res: "snd (postCompanyRelation d session newId parent child pct)
                = snd (createCompanyRelation d newId p ch x)"
    by (auto simp: postCompanyRelation_def Let_def incomingTotal_def
          split: option.splits if_splits prod.splits)
  show ?thesis
    unfolding res createCompanyRelation_total using assms ok by auto
qed

text \<open>
  C1 fails on the update route. From \<open>ownersDb\<close> two creations are accepted and bring
  the incoming total of C to 100; a third creation of 1% is refused with status 400;
  the update of relation r1 to 100% is accepted, and the incoming total of C is 150.
\<close>

theorem updateRelation_exceeds_bound:
  "fst (postCompanyRelation ownersDb (Some ''a1'') ''r1'' (Some ''A'') (Some ''C'') (Some 50))
     = Json \<lparr>relation_id = ''r1'', parentCompanyId = ''A'', childCompanyId = ''C'',
              ownershipPercentage = 50\<rparr>
   \<and> fst (postCompanyRelation afterFirstPost (Some ''a1'') ''r2'' (Some ''B'') (Some ''C'')
            (Some 50))
     = Json \<lparr>relation_id = ''r2'', parentCompanyId = ''B'', childCompanyId = ''C'',
              ownershipPercentage = 50\<rparr>
   \<and> incomingTotal afterSecondPost ''C'' = 100
   \<and> postCompanyRelation afterSecondPost (Some ''a1'') ''r3'' (Some ''A'') (Some ''C'') (Some 1)
     = (Status 400, afterSecondPost)
   \<and> fst (putCompanyRelation afterSecondPost (Some ''a1'') ''r1'' (Some 100))
     = Json (Some \<lparr>relation_id = ''r1'', parentCompanyId = ''A'', childCompanyId = ''C'',
                    ownershipPercentage = 100\<rparr>)
   \<and> incomingTotal afterUpdate ''C'' = 150"
  by code_simp

text \<open>
  C7 fails. Administrator a1 of org1 updates and deletes relation rx, whose companies
  belong to org2: both routes answer with status 200, the update changes the
  percentage from 30 to 90 and the delete removes the relation.
\<close>

theorem cross_tenant_relation_mutation:
  "map user_organizationId (users twoOrgDb) = [''org1'']
   \<and> map fst (allRelationsOf twoOrgDb ''org1'') = []
   \<and> map fst (allRelationsOf twoOrgDb ''org2'') = [relationX]
   \<and> putCompanyRelation twoOrgDb (Some ''a1'') ''rx'' (Some 90)
     = (Json (Some (relationX\<lparr>ownershipPercentage := 90\<rparr>)),
        twoOrgDb\<lparr>companyRelations := [relationX\<lparr>ownershipPercentage := 90\<rparr>]\<rparr>)
   \<and> deleteCompanyRelationRoute twoOrgDb (Some ''a1'') ''rx''
     = (Json True, twoOrgDb\<lparr>companyRelations := []\<rparr>)"
  by code_simp

section \<open>Dashboard view of a broker\<close>

text \<open>
  C8 fails. A broker created with an assigned company gets the view mode
  \<open>weighted\<close> from \<open>createUser\<close>, and the statistics route then answers, at every
  stack depth with room for one nested call, with the weighted figures (count the
  double 0.3, value 300,000) and not with the totals of the organization (count 2, value
  1,000,500). The preferences route, too, lets the broker leave the total view and
  return to the weighted one.
\<close>

theorem broker_receives_weighted_stats:
  "fst (createUser chainDb ''b1'' ''org1'' (Some Broker) (Some ''A''))
     = \<lparr>user_id = ''b1'', user_organizationId = ''org1'', role = Broker,
        assignedCompanyId = Some ''A'', dashboardViewMode = Weighted\<rparr>
   \<and> dashboardStats (Suc depth) brokerDb (Some ''b1'')
     = Json \<lparr>count = double (3 / 10), totalValue = 300000, latestProperty = Some propertyP,
              leaseStats = \<lparr>leaseCount = double (3 / 10), totalRentCapacity = 30\<rparr>\<rparr>
   \<and> getPropertyStats brokerDb ''org1''
     = \<lparr>count = 2, totalValue = 1000500, latestProperty = Some propertyQ,
        leaseStats = \<lparr>leaseCount = 1, totalRentCapacity = 100\<rparr>\<rparr>
   \<and> putUserPreferences (snd (putUserPreferences brokerDb (Some ''b1'') (Some Total)))
       (Some ''b1'') (Some Weighted)
     = (Json \<lparr>user_id = ''b1'', user_organizationId = ''org1'', role = Broker,
              assignedCompanyId = Some ''A'', dashboardViewMode = Weighted\<rparr>, brokerDb)"
proof (intro conjI)
  show "putUserPreferences (snd (putUserPreferences brokerDb (Some ''b1'') (Some Total)))
       (Some ''b1'') (Some Weighted)
     = (Json \<lparr>user_id = ''b1'', user_organizationId = ''org1'', role = Broker,
              assignedCompanyId = Some ''A'', dashboardViewMode = Weighted\<rparr>, brokerDb)"
    by code_simp
next
  show "fst (createUser chainDb ''b1'' ''org1'' (Some Broker) (Some ''A''))
     = \<lparr>user_id = ''b1'', user_organizationId = ''org1'', role = Broker,
        assignedCompanyId = Some ''A'', dashboardViewMode = Weighted\<rparr>"
    by code_simp
next
  have "dashboardStats (Suc 0) brokerDb (Some ''b1'')
     = Json \<lparr>count = double (3 / 10), totalValue = 300000, latestProperty = Some propertyP,
              leaseStats = \<lparr>leaseCount = double (3 / 10), totalRentCapacity = 30\<rparr>\<rparr>"
    by code_simp
  then show "dashboardStats (Suc depth) brokerDb (Some ''b1'')
     = Json \<lparr>count = double (3 / 10), totalValue = 300000, latestProperty = Some propertyP,
              leaseStats = \<lparr>leaseCount = double (3 / 10), totalRentCapacity = 30\<rparr>\<rparr>"
    by (rule dashboardStats_depth_mono) simp
next
  show "getPropertyStats brokerDb ''org1''
     = \<lparr>count = 2, totalValue = 1000500, latestProperty = Some propertyQ,
        leaseStats = \<lparr>leaseCount = 1, totalRentCapacity = 100\<rparr>\<rparr>"
    by code_simp
qed

end
